theory Spec2Isabelle
  imports Complex_Main "HOL-Library.Sublist" "HOL-Library.AList" "HOL-Library.Multiset"
begin

section \<open>Workflow synchronisation: data model\<close>

text \<open>
  The Python package \<^verbatim>\<open>tools/workflow_sync\<close> copies the GitHub Actions workflows of a
  source repository to every repository of an organisation that carries a topic. The
  service (\<^verbatim>\<open>services/sync_service.py\<close>) talks to GitHub only through a client object
  (\<^verbatim>\<open>clients/github_client.py\<close>), which it receives by dependency injection. The
  embedding follows that structure: the service is a family of state transformers over
  an arbitrary client, and the methods of the concrete \<^verbatim>\<open>GitHubClient\<close> that the
  properties below depend on are state transformers over the PyGithub calls they make.
\<close>

subsection \<open>Exceptions\<close>

text \<open>
  Every exception the code can see is an \<^verbatim>\<open>Exception\<close>. PyGithub's
  \<^verbatim>\<open>RateLimitExceededException\<close> is a subclass of \<^verbatim>\<open>GithubException\<close>; both carry the HTTP
  status, the text of \<^verbatim>\<open>e.data\<close> (empty when \<^verbatim>\<open>e.data\<close> is falsy) and the text of
  \<^verbatim>\<open>str(e)\<close>. \<open>OtherException\<close> is any other exception class (a network error, a
  decoding error, \<^verbatim>\<open>RuntimeError\<close>), with the text of \<^verbatim>\<open>str(e)\<close>.
\<close>

datatype exn =
    GithubException nat string string
  | RateLimitExceededException nat string string
  | SourceRepoError string
  | OtherException string

fun is_RateLimitExceededException :: "exn \<Rightarrow> bool" where
  "is_RateLimitExceededException (RateLimitExceededException _ _ _) = True"
| "is_RateLimitExceededException _ = False"

fun is_GithubException :: "exn \<Rightarrow> bool" where
  "is_GithubException (GithubException _ _ _) = True"
| "is_GithubException (RateLimitExceededException _ _ _) = True"
| "is_GithubException _ = False"

fun exn_status :: "exn \<Rightarrow> nat" where
  "exn_status (GithubException st _ _) = st"
| "exn_status (RateLimitExceededException st _ _) = st"
| "exn_status _ = 0"

fun exn_data :: "exn \<Rightarrow> string" where
  "exn_data (GithubException _ d _) = d"
| "exn_data (RateLimitExceededException _ d _) = d"
| "exn_data _ = []"

fun str_exn :: "exn \<Rightarrow> string" where
  "str_exn (GithubException _ _ m) = m"
| "str_exn (RateLimitExceededException _ _ m) = m"
| "str_exn (SourceRepoError m) = m"
| "str_exn (OtherException m) = m"

subsection \<open>models.py\<close>

text \<open>
  Names and messages are byte strings (UTF-8; a non-ASCII letter of a message is written
  as its bytes). File contents are sequences of Unicode code points, because
  \<^verbatim>\<open>str.strip\<close> is defined on code points.
\<close>

type_synonym ustring = "nat list"

datatype SyncStatus = SUCCESS | SKIPPED | ERROR | NO_CHANGES

record SyncResult =
  repo_name :: string
  status :: SyncStatus
  pr_url :: "(string \<times> int) option"
  message :: string
  files_updated :: "string list"
  files_failed :: "string list"
  branch_created :: "string option"
  duration_seconds :: real

text \<open>The dataclass defaults of \<^verbatim>\<open>SyncResult(repo_name=..., status=...)\<close>.\<close>

definition new_SyncResult :: "string \<Rightarrow> SyncStatus \<Rightarrow> SyncResult" where
  "new_SyncResult rn st =
     \<lparr>repo_name = rn, status = st, pr_url = None, message = [], files_updated = [],
      files_failed = [], branch_created = None, duration_seconds = 0\<rparr>"

record SyncConfig =
  token :: string
  org :: string
  topic :: string
  source_repo :: string
  dry_run :: bool
  files_filter :: "string list"
  max_workers :: int
  timeout :: int

record FileChange =
  filename :: string
  content :: ustring
  existing_sha :: "string option"

definition is_new :: "FileChange \<Rightarrow> bool" where
  "is_new ch = (existing_sha ch = None)"

text \<open>
  \<^verbatim>\<open>RepositoryInfo\<close>, the entries of a topic search. Its fields carry the prefix
  \<open>info_\<close> where the name is also an attribute of a repository handle.
\<close>

record RepositoryInfo =
  info_name :: string
  info_full_name :: string
  info_default_branch :: string
  info_archived :: bool
  has_push_permission :: bool

text \<open>
  A PyGithub \<^verbatim>\<open>Repository\<close> handle, with the attributes the code reads. The service
  reads \<^verbatim>\<open>repo.default_branch\<close> inside a \<^verbatim>\<open>try\<close>, so reading it may raise (\<open>Inl\<close>); an
  absent default branch (\<^verbatim>\<open>None\<close>) and the empty string are both falsy and are both the
  empty string here.
\<close>

record Repository =
  name :: string
  full_name :: string
  archived :: bool
  default_branch :: "exn + string"

subsection \<open>State, effects and the client interface\<close>

text \<open>
  A call of the service to its client, with its arguments, and how the call ended
  (\<open>None\<close>: it returned; \<open>Some e\<close>: it raised \<open>e\<close>).
\<close>

datatype call =
    GetRepository string
  | SearchRepositoriesByTopic string string
  | GetFileContent Repository string
  | GetWorkflowFiles Repository string
  | CreateBranch Repository string string
  | DeleteBranch Repository string
  | CreateOrUpdateFile Repository string ustring string string "string option"
  | CreatePullRequest Repository string string string string
  | GetOpenPrsWithPrefix Repository string
  | CheckRateLimit bool
  | GetBaseSha Repository string
  | BranchExists Repository string
  | HandlePostOperationRateLimit

type_synonym event = "call \<times> exn option"

text \<open>
  The state of a run: the world outside the process (\<open>'w\<close>: the remote repositories, the
  clock, the random generator), the calls made to the client so far, and the attribute
  \<^verbatim>\<open>self._source_workflows\<close> of the service (a \<^verbatim>\<open>dict\<close>, in insertion order).
\<close>

record 'w st =
  world :: 'w
  trace :: "event list"
  source_workflows :: "(string \<times> ustring) list"

type_synonym ('a, 'w) gw = "'w \<Rightarrow> (exn + 'a) \<times> 'w"

type_synonym ('a, 'w) io = "'w st \<Rightarrow> (exn + 'a) \<times> 'w st"

text \<open>
  The methods of \<^verbatim>\<open>IGitHubClient\<close> that the service calls (with \<^verbatim>\<open>get_base_sha\<close>,
  \<^verbatim>\<open>branch_exists\<close> and \<^verbatim>\<open>handle_post_operation_rate_limit\<close>, which the service calls on
  its client although the abstract class does not declare them). A method reads and
  changes the world, and returns or raises.
\<close>

record 'w IGitHubClient =
  get_repository :: "string \<Rightarrow> (Repository, 'w) gw"
  search_repositories_by_topic :: "string \<Rightarrow> string \<Rightarrow> (RepositoryInfo list, 'w) gw"
  get_file_content :: "Repository \<Rightarrow> string \<Rightarrow> ((ustring \<times> string) option, 'w) gw"
  get_workflow_files :: "Repository \<Rightarrow> string \<Rightarrow> ((string \<times> ustring) list, 'w) gw"
  create_branch :: "Repository \<Rightarrow> string \<Rightarrow> string \<Rightarrow> (unit, 'w) gw"
  delete_branch :: "Repository \<Rightarrow> string \<Rightarrow> (unit, 'w) gw"
  create_or_update_file ::
    "Repository \<Rightarrow> string \<Rightarrow> ustring \<Rightarrow> string \<Rightarrow> string \<Rightarrow> string option \<Rightarrow> (unit, 'w) gw"
  create_pull_request ::
    "Repository \<Rightarrow> string \<Rightarrow> string \<Rightarrow> string \<Rightarrow> string \<Rightarrow> (string \<times> int, 'w) gw"
  get_open_prs_with_prefix :: "Repository \<Rightarrow> string \<Rightarrow> (string list, 'w) gw"
  check_rate_limit :: "bool \<Rightarrow> (unit, 'w) gw"
  get_base_sha :: "Repository \<Rightarrow> string \<Rightarrow> (string, 'w) gw"
  branch_exists :: "Repository \<Rightarrow> string \<Rightarrow> (bool, 'w) gw"
  handle_post_operation_rate_limit :: "(unit, 'w) gw"

text \<open>The service calls a client method: the world changes and the call is recorded.\<close>

definition outcome :: "exn + 'a \<Rightarrow> exn option" where
  "outcome r = (case r of Inl e \<Rightarrow> Some e | Inr _ \<Rightarrow> None)"

definition invoke :: "call \<Rightarrow> ('a, 'w) gw \<Rightarrow> ('a, 'w) io" where
  "invoke cl f s =
     (case f (world s) of
        (r, w') \<Rightarrow> (r, s\<lparr>world := w', trace := trace s @ [(cl, outcome r)]\<rparr>))"

text \<open>What a step from \<open>s\<close> to \<open>s'\<close> added to the trace.\<close>

definition new_events :: "'w st \<Rightarrow> 'w st \<Rightarrow> event list" where
  "new_events s s' = drop (length (trace s)) (trace s')"

section \<open>sync\_service.py\<close>

text \<open>
  The service is written over an arbitrary client \<open>c\<close>, clock and random source \<open>rt\<close>
  and configuration \<open>cfg\<close>. Its calls to the logger change neither a result nor the
  control flow and are left out.
\<close>

definition WORKFLOWS_PATH :: string where
  "WORKFLOWS_PATH = ''.github/workflows''"

definition BRANCH_PREFIX :: string where
  "BRANCH_PREFIX = ''sync/workflows-update''"

subsection \<open>\_check\_skip\_conditions\<close>

definition msg_archived :: string where
  "msg_archived = ''Repositorio archivado''"

definition msg_no_default_branch :: string where
  "msg_no_default_branch = ''Repositorio sin branch por defecto''"

definition msg_empty_repo :: string where
  "msg_empty_repo = ''Repositorio vac'' @ [CHR 0xC3, CHR 0xAD] @ ''o (sin commits)''"

definition msg_existing_pr :: "string \<Rightarrow> string" where
  "msg_existing_pr url = ''PR de sync existente: '' @ url"

definition check_skip_conditions ::
  "'w IGitHubClient \<Rightarrow> Repository \<Rightarrow> (SyncResult option, 'w) io" where
  "check_skip_conditions c repo s =
     (if archived repo then
        (Inr (Some ((new_SyncResult (name repo) SKIPPED)\<lparr>message := msg_archived\<rparr>)), s)
      else
        (case default_branch repo of
           Inl e \<Rightarrow>
             (Inr (Some ((new_SyncResult (name repo) SKIPPED)\<lparr>message := msg_empty_repo\<rparr>)), s)
         | Inr b \<Rightarrow>
             if b = [] then
               (Inr (Some ((new_SyncResult (name repo) SKIPPED)
                             \<lparr>message := msg_no_default_branch\<rparr>)), s)
             else
               (case invoke (GetOpenPrsWithPrefix repo BRANCH_PREFIX)
                       (get_open_prs_with_prefix c repo BRANCH_PREFIX) s of
                  (Inl e, s') \<Rightarrow> (Inl e, s')
                | (Inr existing_prs, s') \<Rightarrow>
                    (case existing_prs of
                       [] \<Rightarrow> (Inr None, s')
                     | url # _ \<Rightarrow>
                         (Inr (Some ((new_SyncResult (name repo) SKIPPED)
                                       \<lparr>message := msg_existing_pr url\<rparr>)), s')))))"

subsection \<open>\_get\_required\_changes\<close>

text \<open>
  \<^verbatim>\<open>str.isspace\<close> of one code point and \<^verbatim>\<open>str.strip()\<close>: the white space of Unicode,
  removed at both ends.
\<close>

definition py_isspace :: "nat \<Rightarrow> bool" where
  "py_isspace cp =
     (cp \<in> set [0x09, 0x0A, 0x0B, 0x0C, 0x0D, 0x1C, 0x1D, 0x1E, 0x1F, 0x20, 0x85, 0xA0,
                 0x1680, 0x2028, 0x2029, 0x202F, 0x205F, 0x3000]
      \<or> (0x2000 \<le> cp \<and> cp \<le> 0x200A))"

definition strip :: "ustring \<Rightarrow> ustring" where
  "strip xs = rev (dropWhile py_isspace (rev (dropWhile py_isspace xs)))"

definition workflow_path :: "string \<Rightarrow> string" where
  "workflow_path fn = WORKFLOWS_PATH @ ''/'' @ fn"

text \<open>
  The loop over \<^verbatim>\<open>self._source_workflows.items()\<close>, with the list \<^verbatim>\<open>changes\<close> built so
  far. An exception of \<^verbatim>\<open>get_file_content\<close> leaves the loop and the method.
\<close>

fun get_required_changes_loop ::
  "'w IGitHubClient \<Rightarrow> Repository \<Rightarrow> (string \<times> ustring) list \<Rightarrow> FileChange list \<Rightarrow>
   (FileChange list, 'w) io" where
  "get_required_changes_loop c repo [] changes s = (Inr changes, s)"
| "get_required_changes_loop c repo ((fn, new_content) # rest) changes s =
     (case invoke (GetFileContent repo (workflow_path fn))
             (get_file_content c repo (workflow_path fn)) s of
        (Inl e, s') \<Rightarrow> (Inl e, s')
      | (Inr None, s') \<Rightarrow>
          get_required_changes_loop c repo rest
            (changes @ [\<lparr>filename = fn, content = new_content, existing_sha = None\<rparr>]) s'
      | (Inr (Some (existing_content, sha)), s') \<Rightarrow>
          if strip existing_content \<noteq> strip new_content then
            get_required_changes_loop c repo rest
              (changes @ [\<lparr>filename = fn, content = new_content, existing_sha = Some sha\<rparr>]) s'
          else get_required_changes_loop c repo rest changes s')"

definition get_required_changes ::
  "'w IGitHubClient \<Rightarrow> Repository \<Rightarrow> (FileChange list, 'w) io" where
  "get_required_changes c repo s = get_required_changes_loop c repo (source_workflows s) [] s"

subsection \<open>Clock, random numbers and \_generate\_unique\_branch\_name\<close>

text \<open>
  \<^verbatim>\<open>time.time()\<close> and the random generator read and change the world. The clock returns a
  \<^verbatim>\<open>float\<close>: a double, which is a real number. The product and the difference of two
  doubles are doubles again, rounded by the platform: \<open>float_mul\<close> and \<open>float_sub\<close> are
  these two operations (\<^verbatim>\<open>x * y\<close> and \<^verbatim>\<open>x - y\<close> on \<^verbatim>\<open>float\<close>), which in general differ from
  the exact product and difference in the last place. \<^verbatim>\<open>int(x)\<close> truncates towards zero, with
  no rounding; \<^verbatim>\<open>random.randint(lo, hi)\<close> draws from \<open>lo..hi\<close>.
\<close>

record 'w runtime =
  time_time :: "'w \<Rightarrow> real \<times> 'w"
  random_source :: "'w \<Rightarrow> nat \<times> 'w"
  float_mul :: "real \<Rightarrow> real \<Rightarrow> real"
  float_sub :: "real \<Rightarrow> real \<Rightarrow> real"

definition now :: "'w runtime \<Rightarrow> 'w st \<Rightarrow> real \<times> 'w st" where
  "now rt s = (case time_time rt (world s) of (t, w') \<Rightarrow> (t, s\<lparr>world := w'\<rparr>))"

definition randint :: "'w runtime \<Rightarrow> int \<Rightarrow> int \<Rightarrow> 'w st \<Rightarrow> int \<times> 'w st" where
  "randint rt lo hi s =
     (case random_source rt (world s) of
        (r, w') \<Rightarrow> (lo + int (r mod nat (hi - lo + 1)), s\<lparr>world := w'\<rparr>))"

definition py_int :: "real \<Rightarrow> int" where
  "py_int x = (if x < 0 then \<lceil>x\<rceil> else \<lfloor>x\<rfloor>)"

definition digit_char :: "nat \<Rightarrow> char" where
  "digit_char d = ''0123456789'' ! d"

fun str_nat :: "nat \<Rightarrow> string" where
  "str_nat n = (if n < 10 then [digit_char n] else str_nat (n div 10) @ [digit_char (n mod 10)])"

declare str_nat.simps [simp del]

definition str_int :: "int \<Rightarrow> string" where
  "str_int i = (if i < 0 then ''-'' @ str_nat (nat (- i)) else str_nat (nat i))"

definition generate_unique_branch_name ::
  "'w IGitHubClient \<Rightarrow> 'w runtime \<Rightarrow> Repository \<Rightarrow> (string, 'w) io" where
  "generate_unique_branch_name c rt repo s =
     (case now rt s of
        (t, s1) \<Rightarrow>
          (let timestamp = py_int (float_mul rt t 1000);
               branch_name = BRANCH_PREFIX @ ''-'' @ str_int timestamp
           in case invoke (BranchExists repo branch_name) (branch_exists c repo branch_name) s1 of
                (Inl e, s2) \<Rightarrow> (Inl e, s2)
              | (Inr True, s2) \<Rightarrow>
                  (case randint rt 1000 9999 s2 of
                     (r, s3) \<Rightarrow> (Inr (branch_name @ ''-'' @ str_int r), s3))
              | (Inr False, s2) \<Rightarrow> (Inr branch_name, s2)))"

subsection \<open>PRBodyGenerator\<close>

definition newline :: string where
  "newline = [CHR 0x0A]"

fun join :: "string \<Rightarrow> string list \<Rightarrow> string" where
  "join sep [] = []"
| "join sep [x] = x"
| "join sep (x # y # ys) = x @ sep @ join sep (y # ys)"

definition backticked :: "string \<Rightarrow> string" where
  "backticked f = ''`'' @ f @ ''`''"

definition PRBodyGenerator_generate ::
  "string \<Rightarrow> string \<Rightarrow> string list \<Rightarrow> string list \<Rightarrow> string" where
  "PRBodyGenerator_generate org' source_repo' files_updated' files_failed' =
     (let files_list = join newline (map (\<lambda>f. ''- '' @ backticked f) files_updated');
          partial_warning =
            (if files_failed' \<noteq> [] then
               newline @ newline @ ''> **Warning**: Algunos archivos no se pudieron ''
               @ ''sincronizar: '' @ join '', '' (map backticked files_failed') @ newline
             else [])
      in ''## Sincronizaci'' @ [CHR 0xC3, CHR 0xB3] @ ''n de Workflows'' @ newline
         @ newline
         @ ''Este PR sincroniza los GitHub Actions workflows desde el repositorio fuente.''
         @ newline
         @ newline
         @ ''### Archivos actualizados'' @ newline
         @ files_list @ newline
         @ partial_warning @ newline
         @ ''### Repositorio fuente'' @ newline
         @ backticked (org' @ ''/'' @ source_repo') @ newline
         @ newline
         @ ''---'' @ newline
         @ ''*PR generado autom'' @ [CHR 0xC3, CHR 0xA1] @ ''ticamente por workflow-sync*''
         @ newline)"

subsection \<open>\_create\_sync\_pr\<close>

text \<open>Truth value of an optional string: \<^verbatim>\<open>None\<close> and the empty string are falsy.\<close>

definition truthy :: "string option \<Rightarrow> bool" where
  "truthy x = (case x of None \<Rightarrow> False | Some v \<Rightarrow> v \<noteq> [])"

definition commit_message :: "FileChange \<Rightarrow> string" where
  "commit_message change =
     ''chore: '' @ (if truthy (existing_sha change) then ''sync'' else ''add'')
     @ '' workflow '' @ filename change"

text \<open>
  The loop over \<^verbatim>\<open>changes\<close>, with the lists \<^verbatim>\<open>files_updated\<close> and \<^verbatim>\<open>files_failed\<close> built
  so far. The inner \<^verbatim>\<open>try\<close> catches every exception of a write, so the loop always ends
  normally.
\<close>

fun apply_changes ::
  "'w IGitHubClient \<Rightarrow> Repository \<Rightarrow> string \<Rightarrow> FileChange list \<Rightarrow> string list \<Rightarrow> string list \<Rightarrow>
   'w st \<Rightarrow> (string list \<times> string list) \<times> 'w st" where
  "apply_changes c repo branch_name [] updated failed s = ((updated, failed), s)"
| "apply_changes c repo branch_name (change # rest) updated failed s =
     (case invoke
             (CreateOrUpdateFile repo (workflow_path (filename change)) (content change)
                (commit_message change) branch_name (existing_sha change))
             (create_or_update_file c repo (workflow_path (filename change)) (content change)
                (commit_message change) branch_name (existing_sha change)) s of
        (Inl e, s') \<Rightarrow>
          apply_changes c repo branch_name rest updated (failed @ [filename change]) s'
      | (Inr _, s') \<Rightarrow>
          apply_changes c repo branch_name rest (updated @ [filename change]) failed s')"

text \<open>The handler \<^verbatim>\<open>except Exception as e\<close> of \<^verbatim>\<open>_create_sync_pr\<close>.\<close>

definition create_sync_pr_except ::
  "'w IGitHubClient \<Rightarrow> Repository \<Rightarrow> exn \<Rightarrow> string option \<Rightarrow> string list \<Rightarrow> string list \<Rightarrow>
   (SyncResult, 'w) io" where
  "create_sync_pr_except c repo e branch_name updated failed s =
     (let result = (new_SyncResult (name repo) ERROR)
                     \<lparr>message := ''Error: '' @ str_exn e, files_updated := updated,
                      files_failed := failed, branch_created := branch_name\<rparr>
      in if truthy branch_name then
           (case invoke (DeleteBranch repo (the branch_name))
                   (delete_branch c repo (the branch_name)) s of
              (Inl e', s') \<Rightarrow> (Inl e', s')
            | (Inr _, s') \<Rightarrow> (Inr result, s'))
         else (Inr result, s))"

definition msg_all_failed :: string where
  "msg_all_failed = ''Todas las actualizaciones fallaron''"

definition pr_title :: string where
  "pr_title = ''chore: sync GitHub Actions workflows''"

definition create_sync_pr ::
  "'w IGitHubClient \<Rightarrow> 'w runtime \<Rightarrow> SyncConfig \<Rightarrow> Repository \<Rightarrow> FileChange list \<Rightarrow>
   (SyncResult, 'w) io" where
  "create_sync_pr c rt cfg repo changes s =
     (case (case default_branch repo of
              Inl e \<Rightarrow> (Inl e, s)
            | Inr base \<Rightarrow> invoke (GetBaseSha repo base) (get_base_sha c repo base) s) of
        (Inl e, s1) \<Rightarrow> create_sync_pr_except c repo e None [] [] s1
      | (Inr base_sha, s1) \<Rightarrow>
     (case generate_unique_branch_name c rt repo s1 of
        (Inl e, s2) \<Rightarrow> create_sync_pr_except c repo e None [] [] s2
      | (Inr branch_name, s2) \<Rightarrow>
     (case invoke (CreateBranch repo branch_name base_sha)
             (create_branch c repo branch_name base_sha) s2 of
        (Inl e, s3) \<Rightarrow> create_sync_pr_except c repo e (Some branch_name) [] [] s3
      | (Inr _, s3) \<Rightarrow>
     (case apply_changes c repo branch_name changes [] [] s3 of
        ((updated, failed), s4) \<Rightarrow>
          if updated = [] then
            (case invoke (DeleteBranch repo branch_name) (delete_branch c repo branch_name) s4 of
               (Inl e, s5) \<Rightarrow> create_sync_pr_except c repo e (Some branch_name) updated failed s5
             | (Inr _, s5) \<Rightarrow>
                 (Inr ((new_SyncResult (name repo) ERROR)
                         \<lparr>message := msg_all_failed, files_failed := failed,
                          branch_created := Some branch_name\<rparr>), s5))
          else
            (let pr_body = PRBodyGenerator_generate (org cfg) (source_repo cfg) updated failed
             in case (case default_branch repo of
                        Inl e \<Rightarrow> (Inl e, s4)
                      | Inr base \<Rightarrow>
                          invoke (CreatePullRequest repo pr_title pr_body branch_name base)
                            (create_pull_request c repo pr_title pr_body branch_name base) s4) of
                  (Inl e, s5) \<Rightarrow>
                    create_sync_pr_except c repo e (Some branch_name) updated failed s5
                | (Inr pr, s5) \<Rightarrow>
                    (Inr ((new_SyncResult (name repo) SUCCESS)
                            \<lparr>pr_url := Some pr,
                             message := str_nat (length updated) @ '' archivo(s) actualizados'',
                             files_updated := updated, files_failed := failed,
                             branch_created := Some branch_name\<rparr>), s5))))))"

subsection \<open>sync\_single\_repo\<close>

definition msg_up_to_date :: string where
  "msg_up_to_date =
     ''Todos los workflows est'' @ [CHR 0xC3, CHR 0xA1] @ ''n actualizados''"

definition msg_dry_run :: "nat \<Rightarrow> string" where
  "msg_dry_run n =
     ''Dry run - '' @ str_nat n @ '' archivo(s) cambiar'' @ [CHR 0xC3, CHR 0xAD] @ ''an''"

text \<open>
  The handler \<^verbatim>\<open>except Exception as e\<close> of \<^verbatim>\<open>sync_single_repo\<close>. Its variable
  \<^verbatim>\<open>branch_created\<close> is never assigned after its initial \<^verbatim>\<open>None\<close>, so the handler deletes
  no branch.
\<close>

definition sync_single_repo_except :: "Repository \<Rightarrow> exn \<Rightarrow> SyncResult" where
  "sync_single_repo_except repo e =
     (new_SyncResult (name repo) ERROR)
       \<lparr>message := ''Error: '' @ str_exn e, branch_created := None\<rparr>"

text \<open>Every exception is caught, so the method always returns a result.\<close>

definition sync_single_repo ::
  "'w IGitHubClient \<Rightarrow> 'w runtime \<Rightarrow> SyncConfig \<Rightarrow> Repository \<Rightarrow> 'w st \<Rightarrow> SyncResult \<times> 'w st" where
  "sync_single_repo c rt cfg repo s =
     (case check_skip_conditions c repo s of
        (Inl e, s1) \<Rightarrow> (sync_single_repo_except repo e, s1)
      | (Inr (Some skip_result), s1) \<Rightarrow> (skip_result, s1)
      | (Inr None, s1) \<Rightarrow>
          (case get_required_changes c repo s1 of
             (Inl e, s2) \<Rightarrow> (sync_single_repo_except repo e, s2)
           | (Inr changes, s2) \<Rightarrow>
               if changes = [] then
                 ((new_SyncResult (name repo) NO_CHANGES)\<lparr>message := msg_up_to_date\<rparr>, s2)
               else if dry_run cfg then
                 ((new_SyncResult (name repo) SKIPPED)
                    \<lparr>message := msg_dry_run (length changes),
                     files_updated := map filename changes\<rparr>, s2)
               else
                 (case create_sync_pr c rt cfg repo changes s2 of
                    (Inl e, s3) \<Rightarrow> (sync_single_repo_except repo e, s3)
                  | (Inr result, s3) \<Rightarrow> (result, s3))))"

subsection \<open>\_load\_source\_workflows\<close>

definition source_full_name :: "SyncConfig \<Rightarrow> string" where
  "source_full_name cfg = org cfg @ ''/'' @ source_repo cfg"

definition msg_no_workflows :: string where
  "msg_no_workflows = ''No se encontraron workflows en '' @ WORKFLOWS_PATH"

definition load_source_workflows :: "'w IGitHubClient \<Rightarrow> SyncConfig \<Rightarrow> (unit, 'w) io" where
  "load_source_workflows c cfg s =
     (case invoke (GetRepository (source_full_name cfg))
             (get_repository c (source_full_name cfg)) s of
        (Inl e, s1) \<Rightarrow> (Inl e, s1)
      | (Inr source, s1) \<Rightarrow>
          (case invoke (GetWorkflowFiles source WORKFLOWS_PATH)
                  (get_workflow_files c source WORKFLOWS_PATH) s1 of
             (Inl e, s2) \<Rightarrow> (Inl e, s2)
           | (Inr found, s2) \<Rightarrow>
               (let workflows =
                      (if files_filter cfg \<noteq> [] then
                         filter (\<lambda>(k, v). k \<in> set (files_filter cfg)) found
                       else found)
                in if workflows = [] then (Inl (SourceRepoError msg_no_workflows), s2)
                   else (Inr (), s2\<lparr>source_workflows := workflows\<rparr>))))"

subsection \<open>The strategies and run\<close>

text \<open>
  The loop of \<^verbatim>\<open>SequentialSyncStrategy.sync\<close> over \<^verbatim>\<open>enumerate(repos)\<close>, with the index and
  the results so far.
\<close>

fun sequential_loop ::
  "'w IGitHubClient \<Rightarrow> 'w runtime \<Rightarrow> SyncConfig \<Rightarrow> nat \<Rightarrow> Repository list \<Rightarrow> SyncResult list \<Rightarrow>
   (SyncResult list, 'w) io" where
  "sequential_loop c rt cfg idx [] results s = (Inr results, s)"
| "sequential_loop c rt cfg idx (repo # rest) results s =
     (case (if idx > 0 \<and> idx mod 5 = 0 then
              invoke (CheckRateLimit False) (check_rate_limit c False) s
            else (Inr (), s)) of
        (Inl e, s1) \<Rightarrow> (Inl e, s1)
      | (Inr _, s1) \<Rightarrow>
          (case now rt s1 of
             (repo_start, s2) \<Rightarrow>
               (case sync_single_repo c rt cfg repo s2 of
                  (result, s3) \<Rightarrow>
                    (case now rt s3 of
                       (finished, s4) \<Rightarrow>
                         (case invoke HandlePostOperationRateLimit
                                 (handle_post_operation_rate_limit c) s4 of
                            (Inl e, s5) \<Rightarrow> (Inl e, s5)
                          | (Inr _, s5) \<Rightarrow>
                              sequential_loop c rt cfg (idx + 1) rest
                                (results @ [result\<lparr>duration_seconds := float_sub rt finished repo_start\<rparr>])
                                s5)))))"

definition SequentialSyncStrategy_sync ::
  "'w IGitHubClient \<Rightarrow> 'w runtime \<Rightarrow> SyncConfig \<Rightarrow> Repository list \<Rightarrow> (SyncResult list, 'w) io" where
  "SequentialSyncStrategy_sync c rt cfg repos s = sequential_loop c rt cfg 0 repos [] s"

text \<open>
  \<^verbatim>\<open>ParallelSyncStrategy.sync\<close> submits \<^verbatim>\<open>sync_single_repo\<close> once for every target to a
  \<^verbatim>\<open>ThreadPoolExecutor\<close> and collects the results in the order in which the workers
  finish (\<^verbatim>\<open>as_completed\<close>). The workers share the client, so an answer that a worker
  receives is an answer of the client in the world as the other workers have left it, and
  the clock it reads is the clock of that moment. The embedding does not follow the
  interleaving; it says what a worker can observe. \<open>among f g\<close>: every answer of \<open>f\<close> is an
  answer of \<open>g\<close> in some world. \<open>answers_of c c'\<close>: every answer of a method of \<open>c'\<close> is an
  answer of the same method of \<open>c\<close>, for the same arguments, in some world.
\<close>

definition among :: "('a, 'w) gw \<Rightarrow> ('a, 'w) gw \<Rightarrow> bool" where
  "among f g \<longleftrightarrow> (\<forall>w. \<exists>w'. fst (f w) = fst (g w'))"

definition answers_of :: "'w IGitHubClient \<Rightarrow> 'w IGitHubClient \<Rightarrow> bool" where
  "answers_of c c' \<longleftrightarrow>
     (\<forall>fn. among (get_repository c' fn) (get_repository c fn))
   \<and> (\<forall>org' topic'. among (search_repositories_by_topic c' org' topic')
                            (search_repositories_by_topic c org' topic'))
   \<and> (\<forall>repo path. among (get_file_content c' repo path) (get_file_content c repo path))
   \<and> (\<forall>repo path. among (get_workflow_files c' repo path) (get_workflow_files c repo path))
   \<and> (\<forall>repo b sha. among (create_branch c' repo b sha) (create_branch c repo b sha))
   \<and> (\<forall>repo b. among (delete_branch c' repo b) (delete_branch c repo b))
   \<and> (\<forall>repo path cont msg b sha.
         among (create_or_update_file c' repo path cont msg b sha)
               (create_or_update_file c repo path cont msg b sha))
   \<and> (\<forall>repo title body head' base.
         among (create_pull_request c' repo title body head' base)
               (create_pull_request c repo title body head' base))
   \<and> (\<forall>repo pre. among (get_open_prs_with_prefix c' repo pre)
                        (get_open_prs_with_prefix c repo pre))
   \<and> (\<forall>is_search. among (check_rate_limit c' is_search) (check_rate_limit c is_search))
   \<and> (\<forall>repo b. among (get_base_sha c' repo b) (get_base_sha c repo b))
   \<and> (\<forall>repo b. among (branch_exists c' repo b) (branch_exists c repo b))
   \<and> among (handle_post_operation_rate_limit c') (handle_post_operation_rate_limit c)"

text \<open>
  One worker of the pool, for the target \<open>repo\<close>, when the pool was entered in the state
  \<open>s\<close>: a run of \<^verbatim>\<open>sync_single_repo\<close> on \<open>repo\<close>, from a state that holds the source workflows
  of the service, that receives answers of the client \<open>c\<close> and reads some clock and some
  random source with the arithmetic of \<open>rt\<close>. It yields its result and the calls it made.
  \<^verbatim>\<open>sync_single_repo\<close> catches every exception, so \<^verbatim>\<open>future.result()\<close> returns and the
  handler \<^verbatim>\<open>except Exception as exc\<close> of the collecting loop is never entered.
\<close>

definition worker ::
  "'w IGitHubClient \<Rightarrow> 'w runtime \<Rightarrow> SyncConfig \<Rightarrow> 'w st \<Rightarrow> Repository \<Rightarrow>
   SyncResult \<times> event list \<Rightarrow> bool" where
  "worker c rt cfg s repo finished \<longleftrightarrow>
     (\<exists>c' rt' s0 s1.
        answers_of c c' \<and> float_mul rt' = float_mul rt \<and> float_sub rt' = float_sub rt
      \<and> source_workflows s0 = source_workflows s
      \<and> sync_single_repo c' rt' cfg repo s0 = (fst finished, s1)
      \<and> snd finished = new_events s0 s1)"

text \<open>The ways in which the calls of several workers can follow each other.\<close>

fun interleavings :: "'a list list \<Rightarrow> 'a list set" where
  "interleavings [] = {[]}"
| "interleavings (xs # xss) = (\<Union>ys \<in> interleavings xss. shuffles xs ys)"

text \<open>
  \<^verbatim>\<open>ParallelSyncStrategy.sync\<close> with \<^verbatim>\<open>max_workers\<close> workers, as a relation between the state
  in which it is called and the ways in which it can end. \<^verbatim>\<open>ThreadPoolExecutor\<close> raises
  \<^verbatim>\<open>ValueError\<close> when \<^verbatim>\<open>max_workers\<close> is not positive, before any target is submitted.
  Otherwise every target has one worker, the results are those of the workers in the
  order in which they finished, which is any order, and the calls are those of the
  workers, interleaved; the strategy itself calls no method of the client.
\<close>

definition msg_no_workers :: string where
  "msg_no_workers = ''max_workers must be greater than 0''"

inductive ParallelSyncStrategy_sync ::
  "'w IGitHubClient \<Rightarrow> 'w runtime \<Rightarrow> SyncConfig \<Rightarrow> int \<Rightarrow> Repository list \<Rightarrow> 'w st \<Rightarrow>
   (exn + SyncResult list) \<times> 'w st \<Rightarrow> bool"
  for c :: "'w IGitHubClient" and rt :: "'w runtime" and cfg :: SyncConfig
where
  no_workers:
    "workers \<le> 0 \<Longrightarrow>
     ParallelSyncStrategy_sync c rt cfg workers repos s (Inl (OtherException msg_no_workers), s)"
| as_completed:
    "0 < workers \<Longrightarrow>
     list_all2 (worker c rt cfg s) repos finished \<Longrightarrow>
     mset completed = mset finished \<Longrightarrow>
     evs \<in> interleavings (map snd finished) \<Longrightarrow>
     ParallelSyncStrategy_sync c rt cfg workers repos s
       (Inr (map fst completed), s\<lparr>world := w, trace := trace s @ evs\<rparr>)"

text \<open>
  \<^verbatim>\<open>run\<close> below is a function of what the pool does: its argument \<open>parallel_sync\<close> gives, for
  the number of workers, the targets and the state, the way in which the parallel strategy
  ends. A \<open>schedule\<close> is such a function that always picks one of the ways of
  \<open>ParallelSyncStrategy_sync\<close>; the runs of the code with \<^verbatim>\<open>parallel=True\<close> are the runs with a
  schedule.
\<close>

type_synonym 'w ParallelSyncStrategy = "int \<Rightarrow> Repository list \<Rightarrow> (SyncResult list, 'w) io"

definition schedule ::
  "'w IGitHubClient \<Rightarrow> 'w runtime \<Rightarrow> SyncConfig \<Rightarrow> 'w ParallelSyncStrategy \<Rightarrow> bool" where
  "schedule c rt cfg parallel_sync \<longleftrightarrow>
     (\<forall>n repos s. ParallelSyncStrategy_sync c rt cfg n repos s (parallel_sync n repos s))"

text \<open>The loop of \<^verbatim>\<open>run\<close> that leaves the source repository out and resolves the others.\<close>

fun repos_to_sync ::
  "'w IGitHubClient \<Rightarrow> string \<Rightarrow> RepositoryInfo list \<Rightarrow> Repository list \<Rightarrow>
   (Repository list, 'w) io" where
  "repos_to_sync c source [] repos s = (Inr repos, s)"
| "repos_to_sync c source (repo_info # rest) repos s =
     (if info_full_name repo_info = source then repos_to_sync c source rest repos s
      else
        (case invoke (GetRepository (info_full_name repo_info))
                (get_repository c (info_full_name repo_info)) s of
           (Inl e, s') \<Rightarrow> (Inl e, s')
         | (Inr repo, s') \<Rightarrow> repos_to_sync c source rest (repos @ [repo]) s'))"

definition run ::
  "'w IGitHubClient \<Rightarrow> 'w runtime \<Rightarrow> SyncConfig \<Rightarrow> 'w ParallelSyncStrategy \<Rightarrow> bool \<Rightarrow>
   (SyncResult list, 'w) io" where
  "run c rt cfg parallel_sync parallel' s =
     (case now rt s of
        (start_time, s0) \<Rightarrow>
     (case invoke (CheckRateLimit False) (check_rate_limit c False) s0 of
        (Inl e, s1) \<Rightarrow> (Inl e, s1)
      | (Inr _, s1) \<Rightarrow>
     (case load_source_workflows c cfg s1 of
        (Inl e, s2) \<Rightarrow> (Inl e, s2)
      | (Inr _, s2) \<Rightarrow>
     (case invoke (CheckRateLimit True) (check_rate_limit c True) s2 of
        (Inl e, s3) \<Rightarrow> (Inl e, s3)
      | (Inr _, s3) \<Rightarrow>
     (case invoke (SearchRepositoriesByTopic (org cfg) (topic cfg))
             (search_repositories_by_topic c (org cfg) (topic cfg)) s3 of
        (Inl e, s4) \<Rightarrow> (Inl e, s4)
      | (Inr target_repos, s4) \<Rightarrow>
          if target_repos = [] then (Inr [], s4)
          else
            (case repos_to_sync c (source_full_name cfg) target_repos [] s4 of
               (Inl e, s5) \<Rightarrow> (Inl e, s5)
             | (Inr repos, s5) \<Rightarrow>
                 (case (if parallel' then parallel_sync (max_workers cfg) repos s5
                        else SequentialSyncStrategy_sync c rt cfg repos s5) of
                    (Inl e, s6) \<Rightarrow> (Inl e, s6)
                  | (Inr results, s6) \<Rightarrow>
                      (case now rt s6 of (finished, s7) \<Rightarrow> (Inr results, s7)))))))))"

section \<open>github\_client.py\<close>

text \<open>
  The methods of \<^verbatim>\<open>GitHubClient\<close> that the properties below are about, over the PyGithub
  calls they make. The world of the client is the remote side (\<open>'p\<close>) together with what
  the client wrote to its logger and how long it slept.
\<close>

datatype log_level = LOG_DEBUG | LOG_INFO | LOG_WARNING | LOG_ERROR

datatype effect = Logged log_level string | Slept nat

record 'p client_world =
  remote :: 'p
  effects :: "effect list"

text \<open>
  PyGithub objects: a git reference; a \<^verbatim>\<open>ContentFile\<close> with its type, its name and the
  outcome of \<^verbatim>\<open>base64.b64decode(content.content).decode("utf-8")\<close>; what
  \<^verbatim>\<open>repo.get_contents\<close> returns (one file or a listing); a pull request with the name of
  its head branch and its URL.
\<close>

record GitRef =
  ref :: string
  object_sha :: string

record ContentFile =
  content_type :: string
  content_name :: string
  decoded :: "exn + ustring"

datatype contents = OneFile ContentFile | Listing "ContentFile list"

record PullRequest =
  head_ref :: string
  html_url :: string

text \<open>
  The PyGithub calls. \<^verbatim>\<open>repo.get_pulls\<close> returns a list that is fetched while it is
  iterated: the pull requests it yields, and the exception that ends the iteration early,
  if any.
\<close>

record 'p PyGithub =
  repo_get_git_ref :: "Repository \<Rightarrow> string \<Rightarrow> 'p \<Rightarrow> (exn + GitRef) \<times> 'p"
  ref_delete :: "Repository \<Rightarrow> GitRef \<Rightarrow> 'p \<Rightarrow> (exn + unit) \<times> 'p"
  repo_get_contents :: "Repository \<Rightarrow> string \<Rightarrow> 'p \<Rightarrow> (exn + contents) \<times> 'p"
  repo_get_pulls :: "Repository \<Rightarrow> string \<Rightarrow> 'p \<Rightarrow> (PullRequest list \<times> exn option) \<times> 'p"

definition remote_call :: "('p \<Rightarrow> 'a \<times> 'p) \<Rightarrow> 'p client_world \<Rightarrow> 'a \<times> 'p client_world" where
  "remote_call f w = (case f (remote w) of (r, p') \<Rightarrow> (r, w\<lparr>remote := p'\<rparr>))"

definition logged :: "log_level \<Rightarrow> string \<Rightarrow> 'p client_world \<Rightarrow> 'p client_world" where
  "logged level msg w = w\<lparr>effects := effects w @ [Logged level msg]\<rparr>"

definition slept :: "nat \<Rightarrow> 'p client_world \<Rightarrow> 'p client_world" where
  "slept seconds w = w\<lparr>effects := effects w @ [Slept seconds]\<rparr>"

subsection \<open>delete\_branch\<close>

definition msg_branch_deleted :: "string \<Rightarrow> Repository \<Rightarrow> string" where
  "msg_branch_deleted branch_name repo =
     ''Branch eliminado: '' @ branch_name @ '' en '' @ name repo"

definition msg_branch_not_deleted :: "string \<Rightarrow> Repository \<Rightarrow> exn \<Rightarrow> string" where
  "msg_branch_not_deleted branch_name repo e =
     ''No se pudo eliminar branch '' @ branch_name @ '' en '' @ name repo @ '': '' @ str_exn e"

text \<open>The handler \<^verbatim>\<open>except GithubException as e\<close>: any other exception goes on.\<close>

definition delete_branch_except ::
  "Repository \<Rightarrow> string \<Rightarrow> exn \<Rightarrow> (unit, 'p client_world) gw" where
  "delete_branch_except repo branch_name e w =
     (if is_GithubException e then
        (Inr (), logged LOG_WARNING (msg_branch_not_deleted branch_name repo e) w)
      else (Inl e, w))"

definition GitHubClient_delete_branch ::
  "'p PyGithub \<Rightarrow> Repository \<Rightarrow> string \<Rightarrow> (unit, 'p client_world) gw" where
  "GitHubClient_delete_branch py repo branch_name w =
     (case remote_call (repo_get_git_ref py repo (''heads/'' @ branch_name)) w of
        (Inl e, w1) \<Rightarrow> delete_branch_except repo branch_name e w1
      | (Inr r, w1) \<Rightarrow>
          (case remote_call (ref_delete py repo r) w1 of
             (Inl e, w2) \<Rightarrow> delete_branch_except repo branch_name e w2
           | (Inr _, w2) \<Rightarrow> (Inr (), logged LOG_INFO (msg_branch_deleted branch_name repo) w2)))"

subsection \<open>\_api\_call\_with\_retry\<close>

definition MAX_RETRIES :: nat where
  "MAX_RETRIES = 3"

definition RETRY_DELAY_BASE :: nat where
  "RETRY_DELAY_BASE = 2"

definition MAX_RATE_LIMIT_WAIT :: nat where
  "MAX_RATE_LIMIT_WAIT = 300"

text \<open>
  \<^verbatim>\<open>str.lower\<close> on the ASCII letters, and the test
  \<^verbatim>\<open>e.data and "secondary rate limit" in str(e.data).lower()\<close>.
\<close>

definition ascii_lower :: "char \<Rightarrow> char" where
  "ascii_lower ch =
     (let n = (of_char ch :: nat) in if 65 \<le> n \<and> n \<le> 90 then char_of (n + 32) else ch)"

definition secondary_rate_limit :: "exn \<Rightarrow> bool" where
  "secondary_rate_limit e =
     (exn_data e \<noteq> [] \<and> sublist ''secondary rate limit'' (map ascii_lower (exn_data e)))"

definition attempt_of :: "nat \<Rightarrow> string" where
  "attempt_of attempt =
     '' (attempt '' @ str_nat (attempt + 1) @ ''/'' @ str_nat MAX_RETRIES @ '')''"

definition msg_rate_limited :: "string \<Rightarrow> nat \<Rightarrow> nat \<Rightarrow> string" where
  "msg_rate_limited operation_name wait_time attempt =
     operation_name @ '': Rate limited. Retrying in '' @ str_nat wait_time @ ''s''
     @ attempt_of attempt"

definition msg_server_error :: "string \<Rightarrow> nat \<Rightarrow> nat \<Rightarrow> nat \<Rightarrow> string" where
  "msg_server_error operation_name st wait_time attempt =
     operation_name @ '': Server error '' @ str_nat st @ ''. Retrying in ''
     @ str_nat wait_time @ ''s'' @ attempt_of attempt"

definition msg_secondary_limit :: "string \<Rightarrow> nat \<Rightarrow> nat \<Rightarrow> string" where
  "msg_secondary_limit operation_name wait_time attempt =
     operation_name @ '': Secondary rate limit. Waiting '' @ str_nat wait_time @ ''s''
     @ attempt_of attempt"

definition msg_network_error :: "string \<Rightarrow> exn \<Rightarrow> nat \<Rightarrow> nat \<Rightarrow> string" where
  "msg_network_error operation_name e wait_time attempt =
     operation_name @ '': Network error '' @ [CHR 0x27] @ str_exn e @ [CHR 0x27]
     @ ''. Retrying in '' @ str_nat wait_time @ ''s'' @ attempt_of attempt"

definition msg_retries_exhausted :: "string \<Rightarrow> string" where
  "msg_retries_exhausted operation_name =
     operation_name @ '': All '' @ str_nat MAX_RETRIES @ '' retries exhausted''"

text \<open>
  The loop \<^verbatim>\<open>for attempt in range(self.MAX_RETRIES)\<close> over the attempts left, with
  \<^verbatim>\<open>last_exception\<close>, and what follows the loop.
\<close>

fun api_call_attempts ::
  "('p \<Rightarrow> (exn + 'a) \<times> 'p) \<Rightarrow> string \<Rightarrow> nat list \<Rightarrow> exn option \<Rightarrow> ('a, 'p client_world) gw" where
  "api_call_attempts operation operation_name [] last_exception w =
     (let w' = logged LOG_ERROR (msg_retries_exhausted operation_name) w
      in case last_exception of
           Some e \<Rightarrow> (Inl e, w')
         | None \<Rightarrow>
             (Inl (OtherException
                     (operation_name @ '' failed after '' @ str_nat MAX_RETRIES @ '' retries'')),
              w'))"
| "api_call_attempts operation operation_name (attempt # rest) last_exception w =
     (case remote_call operation w of
        (Inr v, w1) \<Rightarrow> (Inr v, w1)
      | (Inl e, w1) \<Rightarrow>
          if is_RateLimitExceededException e then
            (let wait_time = RETRY_DELAY_BASE ^ (attempt + 1)
             in api_call_attempts operation operation_name rest (Some e)
                  (slept wait_time
                     (logged LOG_WARNING (msg_rate_limited operation_name wait_time attempt) w1)))
          else if is_GithubException e then
            (if exn_status e \<in> set [500, 502, 503, 504] then
               (let wait_time = RETRY_DELAY_BASE ^ (attempt + 1)
                in api_call_attempts operation operation_name rest (Some e)
                     (slept wait_time
                        (logged LOG_WARNING
                           (msg_server_error operation_name (exn_status e) wait_time attempt) w1)))
             else if exn_status e = 403 \<and> secondary_rate_limit e then
               (let wait_time = min (60 * 2 ^ attempt) MAX_RATE_LIMIT_WAIT
                in api_call_attempts operation operation_name rest (Some e)
                     (slept wait_time
                        (logged LOG_WARNING
                           (msg_secondary_limit operation_name wait_time attempt) w1)))
             else (Inl e, w1))
          else
            (let wait_time = RETRY_DELAY_BASE ^ (attempt + 1)
             in api_call_attempts operation operation_name rest (Some e)
                  (slept wait_time
                     (logged LOG_WARNING
                        (msg_network_error operation_name e wait_time attempt) w1))))"

definition api_call_with_retry ::
  "('p \<Rightarrow> (exn + 'a) \<times> 'p) \<Rightarrow> string \<Rightarrow> ('a, 'p client_world) gw" where
  "api_call_with_retry operation operation_name w =
     api_call_attempts operation operation_name [0..<MAX_RETRIES] None w"

subsection \<open>get\_workflow\_files\<close>

text \<open>
  The loop over the listing, with the dictionary \<^verbatim>\<open>workflows\<close> built so far; decoding a
  file may raise.
\<close>

fun collect_workflows ::
  "ContentFile list \<Rightarrow> (string \<times> ustring) list \<Rightarrow> exn + (string \<times> ustring) list" where
  "collect_workflows [] workflows = Inr workflows"
| "collect_workflows (f # rest) workflows =
     (if content_type f = ''file''
         \<and> (suffix ''.yml'' (content_name f) \<or> suffix ''.yaml'' (content_name f)) then
        (case decoded f of
           Inl e \<Rightarrow> Inl e
         | Inr file_content \<Rightarrow>
             collect_workflows rest (AList.update (content_name f) file_content workflows))
      else collect_workflows rest workflows)"

text \<open>
  The handler \<^verbatim>\<open>except GithubException as e\<close>: status 404 becomes \<^verbatim>\<open>SourceRepoError\<close>, any
  other \<^verbatim>\<open>GithubException\<close> is raised again, any other exception goes on.
\<close>

definition get_workflow_files_except :: "string \<Rightarrow> exn \<Rightarrow> exn" where
  "get_workflow_files_except path e =
     (if is_GithubException e \<and> exn_status e = 404 then
        SourceRepoError (''Workflows path not found: '' @ path)
      else e)"

definition GitHubClient_get_workflow_files ::
  "'p PyGithub \<Rightarrow> Repository \<Rightarrow> string \<Rightarrow> ((string \<times> ustring) list, 'p client_world) gw" where
  "GitHubClient_get_workflow_files py repo path w =
     (case api_call_with_retry (repo_get_contents py repo path)
             (''get_contents('' @ path @ '')'') w of
        (Inl e, w1) \<Rightarrow> (Inl (get_workflow_files_except path e), w1)
      | (Inr found, w1) \<Rightarrow>
          (case collect_workflows (case found of OneFile f \<Rightarrow> [f] | Listing fs \<Rightarrow> fs) [] of
             Inl e \<Rightarrow> (Inl (get_workflow_files_except path e), w1)
           | Inr workflows \<Rightarrow> (Inr workflows, w1)))"

subsection \<open>get\_open\_prs\_with\_prefix\<close>

definition msg_prs_not_checked :: "Repository \<Rightarrow> exn \<Rightarrow> string" where
  "msg_prs_not_checked repo e =
     ''No se pudieron verificar PRs existentes para '' @ name repo @ '': '' @ str_exn e"

definition GitHubClient_get_open_prs_with_prefix ::
  "'p PyGithub \<Rightarrow> Repository \<Rightarrow> string \<Rightarrow> (string list, 'p client_world) gw" where
  "GitHubClient_get_open_prs_with_prefix py repo branch_prefix w =
     (case remote_call (repo_get_pulls py repo ''open'') w of
        ((pulls, stopped), w1) \<Rightarrow>
          (let urls = map html_url (filter (\<lambda>pr. prefix branch_prefix (head_ref pr)) pulls)
           in case stopped of
                None \<Rightarrow> (Inr urls, w1)
              | Some e \<Rightarrow>
                  if is_GithubException e then
                    (Inr urls, logged LOG_DEBUG (msg_prs_not_checked repo e) w1)
                  else (Inl e, w1)))"

section \<open>Observations on a run\<close>

text \<open>
  The calls that create something on the remote side: a branch, a file on a branch, a
  pull request.
\<close>

fun is_mutation :: "call \<Rightarrow> bool" where
  "is_mutation (CreateBranch _ _ _) = True"
| "is_mutation (CreateOrUpdateFile _ _ _ _ _ _) = True"
| "is_mutation (CreatePullRequest _ _ _ _ _) = True"
| "is_mutation _ = False"

text \<open>
  A step that kept the trace it found, left the source workflows alone and made no
  creating call.
\<close>

definition extends :: "'w st \<Rightarrow> 'w st \<Rightarrow> bool" where
  "extends s s' = (take (length (trace s)) (trace s') = trace s)"

definition read_only :: "'w st \<Rightarrow> 'w st \<Rightarrow> bool" where
  "read_only s s' =
     (source_workflows s' = source_workflows s \<and> extends s s'
      \<and> list_all (\<lambda>ev. \<not> is_mutation (fst ev)) (new_events s s'))"

text \<open>
  The Diff Computer in the words of the specification, for one desired file and what the
  target holds under its name: a creation when the file is absent, an update carrying the
  version token when the trimmed contents differ, nothing when they are equal.
\<close>

definition change_for :: "string \<Rightarrow> ustring \<Rightarrow> (ustring \<times> string) option \<Rightarrow> FileChange list" where
  "change_for fn new_content existing =
     (case existing of
        None \<Rightarrow> [\<lparr>filename = fn, content = new_content, existing_sha = None\<rparr>]
      | Some (existing_content, sha) \<Rightarrow>
          if strip existing_content = strip new_content then []
          else [\<lparr>filename = fn, content = new_content, existing_sha = Some sha\<rparr>])"

text \<open>
  The call that writes one pending change to a branch, and the file names of the pending
  changes whose write returned, or raised, given the write events in the order of the
  changes.
\<close>

definition write_call :: "Repository \<Rightarrow> string \<Rightarrow> FileChange \<Rightarrow> call" where
  "write_call repo branch_name change =
     CreateOrUpdateFile repo (workflow_path (filename change)) (content change)
       (commit_message change) branch_name (existing_sha change)"

fun is_write :: "call \<Rightarrow> bool" where
  "is_write (CreateOrUpdateFile _ _ _ _ _ _) = True"
| "is_write _ = False"

definition written :: "FileChange list \<Rightarrow> event list \<Rightarrow> string list" where
  "written changes writes =
     map (filename \<circ> fst) (filter (\<lambda>(change, ev). snd ev = None) (zip changes writes))"

definition not_written :: "FileChange list \<Rightarrow> event list \<Rightarrow> string list" where
  "not_written changes writes =
     map (filename \<circ> fst) (filter (\<lambda>(change, ev). snd ev \<noteq> None) (zip changes writes))"

text \<open>
  The results that \<^verbatim>\<open>_create_sync_pr\<close> builds, the call that opens the pull request, and
  what the handler of \<^verbatim>\<open>_create_sync_pr\<close> leaves after its own call to \<^verbatim>\<open>delete_branch\<close>
  ended with \<open>x\<close>.
\<close>

definition error_result ::
  "Repository \<Rightarrow> exn \<Rightarrow> string option \<Rightarrow> string list \<Rightarrow> string list \<Rightarrow> SyncResult" where
  "error_result repo e branch_name updated failed =
     (new_SyncResult (name repo) ERROR)
       \<lparr>message := ''Error: '' @ str_exn e, files_updated := updated,
        files_failed := failed, branch_created := branch_name\<rparr>"

definition all_failed_result :: "Repository \<Rightarrow> string \<Rightarrow> string list \<Rightarrow> SyncResult" where
  "all_failed_result repo branch_name failed =
     (new_SyncResult (name repo) ERROR)
       \<lparr>message := msg_all_failed, files_failed := failed,
        branch_created := Some branch_name\<rparr>"

definition success_result ::
  "Repository \<Rightarrow> string \<times> int \<Rightarrow> string \<Rightarrow> string list \<Rightarrow> string list \<Rightarrow> SyncResult" where
  "success_result repo pr branch_name updated failed =
     (new_SyncResult (name repo) SUCCESS)
       \<lparr>pr_url := Some pr,
        message := str_nat (length updated) @ '' archivo(s) actualizados'',
        files_updated := updated, files_failed := failed,
        branch_created := Some branch_name\<rparr>"

definition after_cleanup :: "exn option \<Rightarrow> SyncResult \<Rightarrow> exn + SyncResult" where
  "after_cleanup x result = (case x of None \<Rightarrow> Inr result | Some e \<Rightarrow> Inl e)"

definition pr_call ::
  "SyncConfig \<Rightarrow> Repository \<Rightarrow> string \<Rightarrow> string \<Rightarrow> string list \<Rightarrow> string list \<Rightarrow> call" where
  "pr_call cfg repo branch_name base updated failed =
     CreatePullRequest repo pr_title
       (PRBodyGenerator_generate (org cfg) (source_repo cfg) updated failed) branch_name base"

text \<open>
  The paths through \<^verbatim>\<open>_create_sync_pr\<close>: the calls made, with how each ended, and what the
  method returns or raises. The branch name \<open>b\<close> is the generated one, \<open>b0\<close> the
  time-stamped name that was tested for existence.
\<close>

inductive transaction ::
  "SyncConfig \<Rightarrow> Repository \<Rightarrow> FileChange list \<Rightarrow> event list \<Rightarrow> exn + SyncResult \<Rightarrow> bool"
  for cfg repo changes where
  no_default_branch:
    "default_branch repo = Inl e \<Longrightarrow>
     transaction cfg repo changes [] (Inr (error_result repo e None [] []))"
| base_sha_failed:
    "default_branch repo = Inr base \<Longrightarrow>
     transaction cfg repo changes [(GetBaseSha repo base, Some e)]
       (Inr (error_result repo e None [] []))"
| branch_name_failed:
    "default_branch repo = Inr base \<Longrightarrow>
     transaction cfg repo changes
       [(GetBaseSha repo base, None), (BranchExists repo b0, Some e)]
       (Inr (error_result repo e None [] []))"
| create_branch_failed:
    "default_branch repo = Inr base \<Longrightarrow> prefix BRANCH_PREFIX b \<Longrightarrow>
     transaction cfg repo changes
       [(GetBaseSha repo base, None), (BranchExists repo b0, None),
        (CreateBranch repo b sha, Some e), (DeleteBranch repo b, x)]
       (after_cleanup x (error_result repo e (Some b) [] []))"
| all_writes_failed:
    "default_branch repo = Inr base \<Longrightarrow> prefix BRANCH_PREFIX b \<Longrightarrow>
     map fst writes = map (write_call repo b) changes \<Longrightarrow> written changes writes = [] \<Longrightarrow>
     transaction cfg repo changes
       ([(GetBaseSha repo base, None), (BranchExists repo b0, None),
         (CreateBranch repo b sha, None)] @ writes @ [(DeleteBranch repo b, None)])
       (Inr (all_failed_result repo b (not_written changes writes)))"
| all_writes_failed_cleanup_failed:
    "default_branch repo = Inr base \<Longrightarrow> prefix BRANCH_PREFIX b \<Longrightarrow>
     map fst writes = map (write_call repo b) changes \<Longrightarrow> written changes writes = [] \<Longrightarrow>
     transaction cfg repo changes
       ([(GetBaseSha repo base, None), (BranchExists repo b0, None),
         (CreateBranch repo b sha, None)] @ writes
        @ [(DeleteBranch repo b, Some e), (DeleteBranch repo b, x)])
       (after_cleanup x (error_result repo e (Some b) [] (not_written changes writes)))"
| pull_request_opened:
    "default_branch repo = Inr base \<Longrightarrow> prefix BRANCH_PREFIX b \<Longrightarrow>
     map fst writes = map (write_call repo b) changes \<Longrightarrow> written changes writes \<noteq> [] \<Longrightarrow>
     transaction cfg repo changes
       ([(GetBaseSha repo base, None), (BranchExists repo b0, None),
         (CreateBranch repo b sha, None)] @ writes
        @ [(pr_call cfg repo b base (written changes writes) (not_written changes writes), None)])
       (Inr (success_result repo pr b (written changes writes) (not_written changes writes)))"
| pull_request_failed:
    "default_branch repo = Inr base \<Longrightarrow> prefix BRANCH_PREFIX b \<Longrightarrow>
     map fst writes = map (write_call repo b) changes \<Longrightarrow> written changes writes \<noteq> [] \<Longrightarrow>
     transaction cfg repo changes
       ([(GetBaseSha repo base, None), (BranchExists repo b0, None),
         (CreateBranch repo b sha, None)] @ writes
        @ [(pr_call cfg repo b base (written changes writes) (not_written changes writes), Some e),
           (DeleteBranch repo b, x)])
       (after_cleanup x
          (error_result repo e (Some b) (written changes writes) (not_written changes writes)))"

text \<open>
  The desired set that \<^verbatim>\<open>_load_source_workflows\<close> keeps of what it found, and the message
  of \<^verbatim>\<open>get_workflow_files\<close> for a missing path.
\<close>

definition selected :: "SyncConfig \<Rightarrow> (string \<times> ustring) list \<Rightarrow> (string \<times> ustring) list" where
  "selected cfg found =
     (if files_filter cfg \<noteq> [] then filter (\<lambda>(k, v). k \<in> set (files_filter cfg)) found
      else found)"

definition msg_path_not_found :: "string \<Rightarrow> string" where
  "msg_path_not_found path = ''Workflows path not found: '' @ path"







section \<open>A small concrete world\<close>

text \<open>
  A client whose every call succeeds and finds nothing on the remote side, a clock that
  stands still and a constant random source; none of them looks at the world. The
  concrete runs below start from it and change one method at a time.
\<close>

definition demo_repo :: "string \<Rightarrow> Repository" where
  "demo_repo n =
     \<lparr>name = n, full_name = ''acme/'' @ n, archived = False, default_branch = Inr ''main''\<rparr>"

definition build_yml :: ustring where
  "build_yml = [0x6F, 0x6E, 0x3A, 0x20, 0x70, 0x75, 0x73, 0x68, 0x0A]"

definition deploy_yml :: ustring where
  "deploy_yml = [0x6F, 0x6E, 0x3A, 0x20, 0x74, 0x61, 0x67, 0x0A]"

definition demo_pr :: "string \<times> int" where
  "demo_pr = (''https://github.com/acme/app/pull/7'', 7)"

definition demo_client :: "'w IGitHubClient" where
  "demo_client =
     \<lparr>get_repository = (\<lambda>fn w. (Inr (demo_repo (drop 5 fn)), w)),
      search_repositories_by_topic = (\<lambda>org' topic' w. (Inr [], w)),
      get_file_content = (\<lambda>repo path w. (Inr None, w)),
      get_workflow_files =
        (\<lambda>repo path w. (Inr [(''build.yml'', build_yml), (''deploy.yml'', deploy_yml)], w)),
      create_branch = (\<lambda>repo branch sha w. (Inr (), w)),
      delete_branch = (\<lambda>repo branch w. (Inr (), w)),
      create_or_update_file = (\<lambda>repo path cont msg branch sha w. (Inr (), w)),
      create_pull_request = (\<lambda>repo title body head' base w. (Inr demo_pr, w)),
      get_open_prs_with_prefix = (\<lambda>repo pre w. (Inr [], w)),
      check_rate_limit = (\<lambda>is_search w. (Inr (), w)),
      get_base_sha = (\<lambda>repo branch w. (Inr ''0a1b2c'', w)),
      branch_exists = (\<lambda>repo branch w. (Inr False, w)),
      handle_post_operation_rate_limit = (\<lambda>w. (Inr (), w))\<rparr>"

definition demo_runtime :: "'w runtime" where
  "demo_runtime =
     \<lparr>time_time = (\<lambda>w. (1700000000, w)), random_source = (\<lambda>w. (4242, w)),
      float_mul = (\<lambda>x y. x * y), float_sub = (\<lambda>x y. x - y)\<rparr>"

definition demo_state :: "unit st" where
  "demo_state =
     \<lparr>world = (), trace = [],
      source_workflows = [(''build.yml'', build_yml), (''deploy.yml'', deploy_yml)]\<rparr>"

definition demo_config :: SyncConfig where
  "demo_config =
     \<lparr>token = ''t'', org = ''acme'', topic = ''ci'', source_repo = ''templates'',
      dry_run = False, files_filter = [], max_workers = 4, timeout = 30\<rparr>"

definition timeout_error :: exn where
  "timeout_error = OtherException ''read timed out''"

definition not_found :: exn where
  "not_found = GithubException 404 ''Not Found'' ''404 Not Found''"

definition partly_synced :: "string \<Rightarrow> (ustring \<times> string) option" where
  "partly_synced fn =
     (if fn = ''build.yml'' then Some (build_yml @ [0x20, 0x0A], ''5f2a'') else None)"

definition fully_synced :: "string \<Rightarrow> (ustring \<times> string) option" where
  "fully_synced fn =
     (if fn = ''build.yml'' then Some (build_yml @ [0x20, 0x0A], ''5f2a'')
      else if fn = ''deploy.yml'' then Some (0x0A # deploy_yml, ''77c1'')
      else None)"

definition outdated :: "string \<Rightarrow> (ustring \<times> string) option" where
  "outdated fn = (if fn = ''build.yml'' then Some (0x23 # build_yml, ''5f2a'') else None)"

definition with_files :: "(string \<Rightarrow> (ustring \<times> string) option) \<Rightarrow> 'w IGitHubClient" where
  "with_files files =
     demo_client\<lparr>get_file_content :=
       (\<lambda>repo path w. (Inr (files (drop (length WORKFLOWS_PATH + 1) path)), w))\<rparr>"

definition dry_config :: SyncConfig where
  "dry_config = demo_config\<lparr>dry_run := True\<rparr>"

definition demo_branch :: string where
  "demo_branch = ''sync/workflows-update-1700000000000''"

definition demo_changes :: "FileChange list" where
  "demo_changes =
     [\<lparr>filename = ''build.yml'', content = build_yml, existing_sha = Some ''5f2a''\<rparr>,
      \<lparr>filename = ''deploy.yml'', content = deploy_yml, existing_sha = None\<rparr>]"

definition conflict :: exn where
  "conflict = GithubException 409 ''Conflict'' ''409 Conflict''"

definition rejecting :: "string list \<Rightarrow> 'w IGitHubClient" where
  "rejecting paths =
     demo_client\<lparr>create_or_update_file :=
       (\<lambda>repo path cont msg branch sha w. (if path \<in> set paths then Inl conflict else Inr (), w))\<rparr>"

text \<open>
  PyGithub with the network down, with a branch that is already gone, and with a branch
  that the remote side refuses to delete; a client that lost the network after creating
  its branch.
\<close>

definition offline_py :: "'p PyGithub" where
  "offline_py =
     \<lparr>repo_get_git_ref = (\<lambda>repo r p. (Inl timeout_error, p)),
      ref_delete = (\<lambda>repo r p. (Inl timeout_error, p)),
      repo_get_contents = (\<lambda>repo path p. (Inl timeout_error, p)),
      repo_get_pulls = (\<lambda>repo state p. (([], Some timeout_error), p))\<rparr>"

definition offline_client :: "'p client_world IGitHubClient" where
  "offline_client =
     demo_client
       \<lparr>create_or_update_file := (\<lambda>repo path cont msg branch sha w. (Inl timeout_error, w)),
        delete_branch := GitHubClient_delete_branch offline_py\<rparr>"

definition missing_ref_py :: "'p PyGithub" where
  "missing_ref_py = offline_py\<lparr>repo_get_git_ref := (\<lambda>repo r p. (Inl not_found, p))\<rparr>"

definition unprocessable :: exn where
  "unprocessable = GithubException 422 ''Reference does not exist'' ''422 Unprocessable''"

definition protected_py :: "'p PyGithub" where
  "protected_py =
     offline_py
       \<lparr>repo_get_git_ref := (\<lambda>repo r p. (Inr \<lparr>ref = r, object_sha = ''0a1b2c''\<rparr>, p)),
        ref_delete := (\<lambda>repo r p. (Inl unprocessable, p))\<rparr>"

definition quiet_world :: "unit client_world" where
  "quiet_world = \<lparr>remote = (), effects = []\<rparr>"

definition client_state :: "unit client_world st" where
  "client_state =
     \<lparr>world = quiet_world, trace = [],
      source_workflows = [(''build.yml'', build_yml), (''deploy.yml'', deploy_yml)]\<rparr>"

text \<open>
  A target with two open pull requests, one of them on a sync branch, seen through
  \<^verbatim>\<open>GitHubClient.get_open_prs_with_prefix\<close>.
\<close>

definition open_sync_pr :: PullRequest where
  "open_sync_pr = \<lparr>head_ref = demo_branch, html_url = fst demo_pr\<rparr>"

definition other_pr :: PullRequest where
  "other_pr = \<lparr>head_ref = ''feature/login'', html_url = ''https://github.com/acme/app/pull/6''\<rparr>"

definition listing_py :: "'p PyGithub" where
  "listing_py =
     offline_py\<lparr>repo_get_pulls := (\<lambda>repo state p. (([other_pr, open_sync_pr], None), p))\<rparr>"

definition guarded_client :: "'p client_world IGitHubClient" where
  "guarded_client =
     demo_client\<lparr>get_open_prs_with_prefix := GitHubClient_get_open_prs_with_prefix listing_py\<rparr>"

text \<open>
  A source repository without a workflow directory, a filter that selects no file of the
  source, a parallel strategy that does nothing, and the state of a service that has not
  run yet.
\<close>

definition no_workflows_py :: "'p PyGithub" where
  "no_workflows_py = offline_py\<lparr>repo_get_contents := (\<lambda>repo path p. (Inl not_found, p))\<rparr>"

definition bare_source_client :: "'p client_world IGitHubClient" where
  "bare_source_client =
     demo_client\<lparr>get_workflow_files := GitHubClient_get_workflow_files no_workflows_py\<rparr>"

definition release_only :: SyncConfig where
  "release_only = demo_config\<lparr>files_filter := [''release.yml'']\<rparr>"

definition no_parallel :: "'w ParallelSyncStrategy" where
  "no_parallel workers repos s = (Inr [], s)"

definition fresh_state :: "'w \<Rightarrow> 'w st" where
  "fresh_state w = \<lparr>world = w, trace = [], source_workflows = []\<rparr>"





text \<open>
  A way in which the pool can end: every worker ran alone from the state in which the pool
  was entered, and the workers finished in the reverse order of submission.
\<close>

definition alone ::
  "'w IGitHubClient \<Rightarrow> 'w runtime \<Rightarrow> SyncConfig \<Rightarrow> 'w st \<Rightarrow> Repository \<Rightarrow> SyncResult \<times> event list" where
  "alone c rt cfg s repo =
     (case sync_single_repo c rt cfg repo s of (result, s') \<Rightarrow> (result, new_events s s'))"

definition last_first ::
  "'w IGitHubClient \<Rightarrow> 'w runtime \<Rightarrow> SyncConfig \<Rightarrow> 'w ParallelSyncStrategy" where
  "last_first c rt cfg workers repos s =
     (if workers \<le> 0 then (Inl (OtherException msg_no_workers), s)
      else (Inr (rev (map (\<lambda>repo. fst (alone c rt cfg s repo)) repos)),
            s\<lparr>trace := trace s @ concat (map (\<lambda>repo. snd (alone c rt cfg s repo)) repos)\<rparr>))"




definition later_branch :: string where
  "later_branch = ''sync/workflows-update-1700000001000''"




definition up_to_date :: "string \<Rightarrow> SyncResult" where
  "up_to_date n = (new_SyncResult n NO_CHANGES)\<lparr>message := msg_up_to_date\<rparr>"

section \<open>Properties\<close>

text \<open>
  Claim C3. The skip check of a target makes three tests in a fixed order, and the first
  that matches decides: an archived repository is skipped without any further test;
  otherwise a repository whose default branch cannot be read or is empty is skipped without
  asking for pull requests; otherwise the open pull requests on branches with the sync
  prefix are asked for once, and a first URL \<open>url\<close> among them gives a skip whose message
  carries \<open>url\<close>. The check returns \<open>None\<close> (proceed) exactly when the repository is not
  archived, has a readable non-empty default branch, and the client returned an empty list
  of open sync pull requests.
\<close>

theorem check_skip_conditions_first_match:
  assumes "check_skip_conditions c repo s = (r, s')"
  shows "(archived repo \<longrightarrow>
            r = Inr (Some ((new_SyncResult (name repo) SKIPPED)\<lparr>message := msg_archived\<rparr>))
            \<and> s' = s)
       \<and> (\<not> archived repo \<and> (\<exists>e. default_branch repo = Inl e) \<longrightarrow>
            r = Inr (Some ((new_SyncResult (name repo) SKIPPED)\<lparr>message := msg_empty_repo\<rparr>))
            \<and> s' = s)
       \<and> (\<not> archived repo \<and> default_branch repo = Inr [] \<longrightarrow>
            r = Inr (Some ((new_SyncResult (name repo) SKIPPED)
                             \<lparr>message := msg_no_default_branch\<rparr>))
            \<and> s' = s)
       \<and> (\<forall>b url urls w'.
            \<not> archived repo \<and> default_branch repo = Inr b \<and> b \<noteq> [] \<and>
            get_open_prs_with_prefix c repo BRANCH_PREFIX (world s) = (Inr (url # urls), w') \<longrightarrow>
            r = Inr (Some ((new_SyncResult (name repo) SKIPPED)
                             \<lparr>message := msg_existing_pr url\<rparr>))
            \<and> s' = s\<lparr>world := w',
                     trace := trace s @ [(GetOpenPrsWithPrefix repo BRANCH_PREFIX, None)]\<rparr>)
       \<and> (r = Inr None \<longleftrightarrow>
            \<not> archived repo \<and> (\<exists>b. default_branch repo = Inr b \<and> b \<noteq> []) \<and>
            fst (get_open_prs_with_prefix c repo BRANCH_PREFIX (world s)) = Inr [])"
  using assms
  by (auto simp: check_skip_conditions_def invoke_def outcome_def
           split: if_splits sum.splits list.splits prod.splits)

theorem check_skip_conditions_first_match_witness:
  "fst (check_skip_conditions demo_client ((demo_repo ''old'')\<lparr>archived := True\<rparr>) demo_state)
     = Inr (Some ((new_SyncResult ''old'' SKIPPED)\<lparr>message := msg_archived\<rparr>))
   \<and> fst (check_skip_conditions demo_client
             ((demo_repo ''bare'')\<lparr>default_branch := Inl timeout_error\<rparr>) demo_state)
     = Inr (Some ((new_SyncResult ''bare'' SKIPPED)\<lparr>message := msg_empty_repo\<rparr>))
   \<and> fst (check_skip_conditions demo_client
             ((demo_repo ''empty'')\<lparr>default_branch := Inr []\<rparr>) demo_state)
     = Inr (Some ((new_SyncResult ''empty'' SKIPPED)\<lparr>message := msg_no_default_branch\<rparr>))
   \<and> fst (check_skip_conditions
             (demo_client\<lparr>get_open_prs_with_prefix :=
                (\<lambda>repo pre w. (Inr [''https://github.com/acme/app/pull/3''], w))\<rparr>)
             (demo_repo ''app'') demo_state)
     = Inr (Some ((new_SyncResult ''app'' SKIPPED)
                    \<lparr>message := msg_existing_pr ''https://github.com/acme/app/pull/3''\<rparr>))
   \<and> fst (check_skip_conditions demo_client (demo_repo ''app'') demo_state) = Inr None"
proof -
  note t = check_skip_conditions_first_match [OF surjective_pairing]
  have archived: "archived ((demo_repo ''old'')\<lparr>archived := True\<rparr>)"
    by simp
  have unreadable:
    "\<not> archived ((demo_repo ''bare'')\<lparr>default_branch := Inl timeout_error\<rparr>)
     \<and> (\<exists>e. default_branch ((demo_repo ''bare'')\<lparr>default_branch := Inl timeout_error\<rparr>) = Inl e)"
    by (simp add: demo_repo_def)
  have no_branch:
    "\<not> archived ((demo_repo ''empty'')\<lparr>default_branch := Inr []\<rparr>)
     \<and> default_branch ((demo_repo ''empty'')\<lparr>default_branch := Inr []\<rparr>) = Inr []"
    by (simp add: demo_repo_def)
  have open_pr:
    "\<not> archived (demo_repo ''app'') \<and> default_branch (demo_repo ''app'') = Inr ''main''
     \<and> ''main'' \<noteq> []
     \<and> get_open_prs_with_prefix
          (demo_client\<lparr>get_open_prs_with_prefix :=
             (\<lambda>repo pre w. (Inr [''https://github.com/acme/app/pull/3''], w))\<rparr>)
          (demo_repo ''app'') BRANCH_PREFIX (world demo_state)
        = (Inr (''https://github.com/acme/app/pull/3'' # []), ())"
    by (simp add: demo_repo_def)
  have proceed:
    "\<not> archived (demo_repo ''app'')
     \<and> (\<exists>b. default_branch (demo_repo ''app'') = Inr b \<and> b \<noteq> [])
     \<and> fst (get_open_prs_with_prefix demo_client (demo_repo ''app'') BRANCH_PREFIX
              (world demo_state)) = Inr []"
    by (simp add: demo_repo_def demo_client_def)
  show ?thesis
    using t [where c = demo_client and repo = "(demo_repo ''old'')\<lparr>archived := True\<rparr>"
               and s = demo_state] archived
          t [where c = demo_client
               and repo = "(demo_repo ''bare'')\<lparr>default_branch := Inl timeout_error\<rparr>"
               and s = demo_state] unreadable
          t [where c = demo_client and repo = "(demo_repo ''empty'')\<lparr>default_branch := Inr []\<rparr>"
               and s = demo_state] no_branch
          t [where c = "demo_client\<lparr>get_open_prs_with_prefix :=
                   (\<lambda>repo pre w. (Inr [''https://github.com/acme/app/pull/3''], w))\<rparr>"
               and repo = "demo_repo ''app''" and s = demo_state] open_pr
          t [where c = demo_client and repo = "demo_repo ''app''" and s = demo_state] proceed
    by (simp add: demo_repo_def)
qed

subsection \<open>Steps that only read\<close>

lemma extends_iff: "extends s s' \<longleftrightarrow> (\<exists>evs. trace s' = trace s @ evs)"
  unfolding extends_def by (metis append_eq_conv_conj append_take_drop_id)

lemma new_events_append: "trace s' = trace s @ evs \<Longrightarrow> new_events s s' = evs"
  by (simp add: new_events_def)

lemma read_only_iff:
  "read_only s s' \<longleftrightarrow>
     source_workflows s' = source_workflows s
     \<and> (\<exists>evs. trace s' = trace s @ evs \<and> list_all (\<lambda>ev. \<not> is_mutation (fst ev)) evs)"
  unfolding read_only_def extends_iff by (auto simp: new_events_append)

lemma read_only_refl: "read_only s s"
  by (simp add: read_only_iff)

lemma read_only_trans: "read_only s s' \<Longrightarrow> read_only s' s'' \<Longrightarrow> read_only s s''"
  by (auto simp: read_only_iff)

lemma read_only_invoke:
  "\<not> is_mutation cl \<Longrightarrow> invoke cl f s = (r, s') \<Longrightarrow> read_only s s'"
  by (auto simp: invoke_def read_only_iff split: prod.splits)

lemma check_skip_conditions_read_only:
  "check_skip_conditions c repo s = (r, s') \<Longrightarrow> read_only s s'"
  by (auto simp: check_skip_conditions_def read_only_refl
           split: if_splits sum.splits list.splits prod.splits
           dest!: read_only_invoke [rotated])

lemma get_required_changes_loop_read_only:
  "get_required_changes_loop c repo wfs acc s = (r, s') \<Longrightarrow> read_only s s'"
proof (induction wfs arbitrary: acc s)
  case Nil
  then show ?case by (simp add: read_only_refl)
next
  case (Cons p wfs)
  obtain fn new where p: "p = (fn, new)" by (cases p)
  obtain r1 s1 where inv:
    "invoke (GetFileContent repo (workflow_path fn))
       (get_file_content c repo (workflow_path fn)) s = (r1, s1)"
    by (cases "invoke (GetFileContent repo (workflow_path fn))
       (get_file_content c repo (workflow_path fn)) s")
  have ro: "read_only s s1"
    using read_only_invoke [OF _ inv] by simp
  show ?case
  proof (cases r1)
    case (Inl e)
    with Cons.prems p inv ro show ?thesis by simp
  next
    case (Inr existing)
    with Cons.prems p inv obtain acc' where
      "get_required_changes_loop c repo wfs acc' s1 = (r, s')"
      by (auto split: option.splits if_splits)
    from Cons.IH [OF this] ro show ?thesis
      by (rule read_only_trans [rotated])
  qed
qed

lemma get_required_changes_read_only:
  "get_required_changes c repo s = (r, s') \<Longrightarrow> read_only s s'"
  unfolding get_required_changes_def by (rule get_required_changes_loop_read_only)

lemma get_required_changes_loop_snapshot:
  assumes "\<And>fn new w. (fn, new) \<in> set wfs \<Longrightarrow>
             fst (get_file_content c repo (workflow_path fn) w) = Inr (files fn)"
  shows "fst (get_required_changes_loop c repo wfs acc s)
           = Inr (acc @ concat (map (\<lambda>(fn, new). change_for fn new (files fn)) wfs))"
  using assms
proof (induction wfs arbitrary: acc s)
  case Nil
  then show ?case by simp
next
  case (Cons p wfs)
  obtain fn new where p: "p = (fn, new)" by (cases p)
  have here: "fst (get_file_content c repo (workflow_path fn) (world s)) = Inr (files fn)"
    using Cons.prems [of fn new] p by simp
  have tl: "fst (get_file_content c repo (workflow_path fn') w) = Inr (files fn')"
    if "(fn', new') \<in> set wfs" for fn' new' w
    using Cons.prems [of fn' new' w] that by simp
  have rest: "fst (get_required_changes_loop c repo wfs acc' s')
           = Inr (acc' @ concat (map (\<lambda>(fn, new). change_for fn new (files fn)) wfs))"
    for acc' s'
    by (rule Cons.IH) (rule tl)
  show ?case
    using here
    by (cases "get_file_content c repo (workflow_path fn) (world s)")
       (auto simp: p invoke_def rest change_for_def split: option.splits)
qed

lemma dry_run_makes_no_mutation:
  assumes "dry_run cfg"
  shows "read_only s (snd (sync_single_repo c rt cfg repo s))"
proof (cases "check_skip_conditions c repo s")
  case (Pair r1 s1)
  note skip = this
  have ro1: "read_only s s1"
    using check_skip_conditions_read_only [OF skip] .
  show ?thesis
  proof (cases "r1 = Inr None")
    case False
    with skip ro1 show ?thesis
      by (auto simp: sync_single_repo_def split: sum.splits option.splits)
  next
    case True
    obtain r2 s2 where diff: "get_required_changes c repo s1 = (r2, s2)"
      by (cases "get_required_changes c repo s1")
    have "read_only s s2"
      using ro1 get_required_changes_read_only [OF diff] by (rule read_only_trans)
    with skip True diff assms show ?thesis
      by (auto simp: sync_single_repo_def split: sum.splits)
  qed
qed

subsection \<open>The concrete runs\<close>

lemma strip_build: "strip (build_yml @ [0x20, 0x0A]) = strip build_yml"
  by (simp add: strip_def build_yml_def py_isspace_def)

lemma strip_deploy: "strip (0x0A # deploy_yml) = strip deploy_yml"
  by (simp add: strip_def deploy_yml_def py_isspace_def)

lemma strip_outdated: "strip (0x23 # build_yml) \<noteq> strip build_yml"
  by (simp add: strip_def build_yml_def py_isspace_def)

lemma with_files_content:
  "get_file_content (with_files files) repo (workflow_path fn) w = (Inr (files fn), w)"
  by (simp add: with_files_def workflow_path_def)

lemma demo_skip:
  "check_skip_conditions (with_files files) (demo_repo ''app'') demo_state =
     (Inr None,
      demo_state\<lparr>trace := [(GetOpenPrsWithPrefix (demo_repo ''app'') BRANCH_PREFIX, None)]\<rparr>)"
  by (simp add: check_skip_conditions_def with_files_def demo_client_def demo_repo_def
        demo_state_def invoke_def outcome_def)

lemma demo_diff_partly:
  "get_required_changes (with_files partly_synced) (demo_repo ''app'')
     (demo_state\<lparr>trace := [(GetOpenPrsWithPrefix (demo_repo ''app'') BRANCH_PREFIX, None)]\<rparr>) =
     (Inr [\<lparr>filename = ''deploy.yml'', content = deploy_yml, existing_sha = None\<rparr>],
      demo_state\<lparr>trace :=
        [(GetOpenPrsWithPrefix (demo_repo ''app'') BRANCH_PREFIX, None),
         (GetFileContent (demo_repo ''app'') (workflow_path ''build.yml''), None),
         (GetFileContent (demo_repo ''app'') (workflow_path ''deploy.yml''), None)]\<rparr>)"
  by (simp add: get_required_changes_def demo_state_def invoke_def outcome_def
        with_files_content partly_synced_def strip_build)

lemma demo_diff_fully:
  "get_required_changes (with_files fully_synced) (demo_repo ''app'')
     (demo_state\<lparr>trace := [(GetOpenPrsWithPrefix (demo_repo ''app'') BRANCH_PREFIX, None)]\<rparr>) =
     (Inr [],
      demo_state\<lparr>trace :=
        [(GetOpenPrsWithPrefix (demo_repo ''app'') BRANCH_PREFIX, None),
         (GetFileContent (demo_repo ''app'') (workflow_path ''build.yml''), None),
         (GetFileContent (demo_repo ''app'') (workflow_path ''deploy.yml''), None)]\<rparr>)"
  by (simp add: get_required_changes_def demo_state_def invoke_def outcome_def
        with_files_content fully_synced_def strip_build strip_deploy)

subsection \<open>The diff and the dry run\<close>

text \<open>
  Claim C2. Let the target hold, for every desired file name \<open>fn\<close>, the entry \<open>files fn\<close>
  whenever it is asked during the diff. Then \<^verbatim>\<open>_get_required_changes\<close> returns, in the
  order of the desired set, for each desired file: a change without version token when the
  file is absent, a change carrying the existing version token when the file is present
  and the trimmed contents differ, and nothing when the trimmed contents are equal. If
  every desired file is present with trim-equal content, the result is the empty list,
  \<^verbatim>\<open>sync_single_repo\<close> creates no branch, writes no file and opens no pull request (under
  any configuration), and whenever the skip check lets the target through its result is
  the outcome \<^verbatim>\<open>NO_CHANGES\<close>.
\<close>

theorem get_required_changes_diff:
  assumes "\<forall>fn new w. (fn, new) \<in> set (source_workflows s) \<longrightarrow>
             fst (get_file_content c repo (workflow_path fn) w) = Inr (files fn)"
  shows "fst (get_required_changes c repo s)
           = Inr (concat (map (\<lambda>(fn, new). change_for fn new (files fn)) (source_workflows s)))
       \<and> ((\<forall>(fn, new) \<in> set (source_workflows s).
             \<exists>old sha. files fn = Some (old, sha) \<and> strip old = strip new) \<longrightarrow>
            fst (get_required_changes c repo s) = Inr []
            \<and> (\<forall>rt cfg.
                 read_only s (snd (sync_single_repo c rt cfg repo s))
                 \<and> (fst (check_skip_conditions c repo s) = Inr None \<longrightarrow>
                      fst (sync_single_repo c rt cfg repo s) =
                        (new_SyncResult (name repo) NO_CHANGES)\<lparr>message := msg_up_to_date\<rparr>)))"
proof -
  have snap: "fst (get_required_changes c repo s')
       = Inr (concat (map (\<lambda>(fn, new). change_for fn new (files fn)) (source_workflows s)))"
    if "source_workflows s' = source_workflows s" for s'
  proof -
    have "fst (get_required_changes_loop c repo (source_workflows s) [] s')
       = Inr ([] @ concat (map (\<lambda>(fn, new). change_for fn new (files fn)) (source_workflows s)))"
      by (rule get_required_changes_loop_snapshot) (simp add: assms)
    with that show ?thesis by (simp add: get_required_changes_def)
  qed
  have first: "fst (get_required_changes c repo s)
           = Inr (concat (map (\<lambda>(fn, new). change_for fn new (files fn)) (source_workflows s)))"
    using snap by simp
  have second: "fst (get_required_changes c repo s) = Inr []
            \<and> (\<forall>rt cfg.
                 read_only s (snd (sync_single_repo c rt cfg repo s))
                 \<and> (fst (check_skip_conditions c repo s) = Inr None \<longrightarrow>
                      fst (sync_single_repo c rt cfg repo s) =
                        (new_SyncResult (name repo) NO_CHANGES)\<lparr>message := msg_up_to_date\<rparr>))"
    if same: "\<forall>(fn, new) \<in> set (source_workflows s).
             \<exists>old sha. files fn = Some (old, sha) \<and> strip old = strip new"
  proof -
    have nil: "concat (map (\<lambda>(fn, new). change_for fn new (files fn)) (source_workflows s)) = []"
      using same by (auto simp: change_for_def)
    have empty: "\<And>s'. source_workflows s' = source_workflows s \<Longrightarrow>
        fst (get_required_changes c repo s') = Inr []"
      using snap nil by simp
    have sync: "read_only s (snd (sync_single_repo c rt cfg repo s))
                 \<and> (fst (check_skip_conditions c repo s) = Inr None \<longrightarrow>
                      fst (sync_single_repo c rt cfg repo s) =
                        (new_SyncResult (name repo) NO_CHANGES)\<lparr>message := msg_up_to_date\<rparr>)"
      for rt cfg
    proof (cases "check_skip_conditions c repo s")
      case (Pair r1 s1)
      note skip = this
      have ro1: "read_only s s1"
        using check_skip_conditions_read_only [OF skip] .
      show ?thesis
      proof (cases "r1 = Inr None")
        case False
        with skip ro1 show ?thesis
          by (auto simp: sync_single_repo_def split: sum.splits option.splits)
      next
        case True
        obtain r2 s2 where diff: "get_required_changes c repo s1 = (r2, s2)"
          by (cases "get_required_changes c repo s1")
        have r2: "r2 = Inr []"
          using empty [of s1] ro1 diff by (simp add: read_only_def)
        have "read_only s s2"
          using ro1 get_required_changes_read_only [OF diff] by (rule read_only_trans)
        with skip True diff r2 show ?thesis
          by (simp add: sync_single_repo_def)
      qed
    qed
    show ?thesis using empty [of s] sync by simp
  qed
  show ?thesis using first second by blast
qed


theorem get_required_changes_diff_witness:
  "fst (get_required_changes (with_files partly_synced) (demo_repo ''app'') demo_state)
     = Inr [\<lparr>filename = ''deploy.yml'', content = deploy_yml, existing_sha = None\<rparr>]
   \<and> fst (get_required_changes (with_files fully_synced) (demo_repo ''app'') demo_state) = Inr []
   \<and> read_only demo_state
       (snd (sync_single_repo (with_files fully_synced) demo_runtime demo_config
              (demo_repo ''app'') demo_state))
   \<and> fst (sync_single_repo (with_files fully_synced) demo_runtime demo_config
            (demo_repo ''app'') demo_state)
     = (new_SyncResult ''app'' NO_CHANGES)\<lparr>message := msg_up_to_date\<rparr>
   \<and> fst (get_required_changes (with_files outdated) (demo_repo ''app'') demo_state)
     = Inr [\<lparr>filename = ''build.yml'', content = build_yml, existing_sha = Some ''5f2a''\<rparr>,
            \<lparr>filename = ''deploy.yml'', content = deploy_yml, existing_sha = None\<rparr>]"
proof -
  have snapshot: "\<forall>fn new w. (fn, new) \<in> set (source_workflows demo_state) \<longrightarrow>
      fst (get_file_content (with_files files) (demo_repo ''app'') (workflow_path fn) w)
        = Inr (files fn)" for files
    by (simp add: with_files_content)
  have same: "\<forall>(fn, new) \<in> set (source_workflows demo_state).
      \<exists>old sha. fully_synced fn = Some (old, sha) \<and> strip old = strip new"
    by (simp add: demo_state_def fully_synced_def strip_build strip_deploy)
  have proceed: "fst (check_skip_conditions (with_files fully_synced) (demo_repo ''app'')
      demo_state) = Inr None"
    by (simp add: demo_skip)
  have expected: "concat (map (\<lambda>(fn, new). change_for fn new (partly_synced fn))
      (source_workflows demo_state))
     = [\<lparr>filename = ''deploy.yml'', content = deploy_yml, existing_sha = None\<rparr>]"
    by (simp add: demo_state_def change_for_def partly_synced_def strip_build)
  have partly: "fst (get_required_changes (with_files partly_synced) (demo_repo ''app'')
      demo_state)
     = Inr [\<lparr>filename = ''deploy.yml'', content = deploy_yml, existing_sha = None\<rparr>]"
    using get_required_changes_diff [OF snapshot, of partly_synced] expected by simp
  have fully: "fst (get_required_changes (with_files fully_synced) (demo_repo ''app'')
        demo_state) = Inr []
   \<and> read_only demo_state
       (snd (sync_single_repo (with_files fully_synced) demo_runtime demo_config
              (demo_repo ''app'') demo_state))
   \<and> fst (sync_single_repo (with_files fully_synced) demo_runtime demo_config
            (demo_repo ''app'') demo_state)
     = (new_SyncResult (name (demo_repo ''app'')) NO_CHANGES)\<lparr>message := msg_up_to_date\<rparr>"
    using get_required_changes_diff [OF snapshot, of fully_synced] same proceed by blast
  have expected': "concat (map (\<lambda>(fn, new). change_for fn new (outdated fn))
      (source_workflows demo_state))
     = [\<lparr>filename = ''build.yml'', content = build_yml, existing_sha = Some ''5f2a''\<rparr>,
        \<lparr>filename = ''deploy.yml'', content = deploy_yml, existing_sha = None\<rparr>]"
    by (simp add: demo_state_def change_for_def outdated_def strip_outdated)
  have updated: "fst (get_required_changes (with_files outdated) (demo_repo ''app'') demo_state)
     = Inr [\<lparr>filename = ''build.yml'', content = build_yml, existing_sha = Some ''5f2a''\<rparr>,
            \<lparr>filename = ''deploy.yml'', content = deploy_yml, existing_sha = None\<rparr>]"
    using get_required_changes_diff [OF snapshot, of outdated] expected' by simp
  show ?thesis
    using partly fully updated by (simp add: demo_repo_def)
qed


text \<open>
  Claim C4. Under dry-run, \<^verbatim>\<open>sync_single_repo\<close> makes no branch-creating, file-writing or
  pull-request-creating call, whatever the target and the client do; and for a target that
  passes the skip check and has a non-empty list of pending changes, the result is the
  outcome \<^verbatim>\<open>SKIPPED\<close> whose \<^verbatim>\<open>files_updated\<close> are the file names of the pending changes,
  in their order.
\<close>

theorem sync_single_repo_dry_run:
  assumes "dry_run cfg"
  shows "read_only s (snd (sync_single_repo c rt cfg repo s))
       \<and> (\<forall>s1 changes s2.
            check_skip_conditions c repo s = (Inr None, s1) \<and>
            get_required_changes c repo s1 = (Inr changes, s2) \<and> changes \<noteq> [] \<longrightarrow>
            sync_single_repo c rt cfg repo s =
              ((new_SyncResult (name repo) SKIPPED)
                 \<lparr>message := msg_dry_run (length changes),
                  files_updated := map filename changes\<rparr>, s2))"
  using assms dry_run_makes_no_mutation [OF assms, of s c rt repo]
  by (auto simp: sync_single_repo_def)

theorem sync_single_repo_dry_run_witness:
  "dry_run dry_config
   \<and> read_only demo_state
       (snd (sync_single_repo (with_files partly_synced) demo_runtime dry_config
              (demo_repo ''app'') demo_state))
   \<and> fst (sync_single_repo (with_files partly_synced) demo_runtime dry_config
            (demo_repo ''app'') demo_state)
     = (new_SyncResult ''app'' SKIPPED)
         \<lparr>message := msg_dry_run 1, files_updated := [''deploy.yml'']\<rparr>"
proof -
  have dry: "dry_run dry_config"
    by (simp add: dry_config_def)
  note t = sync_single_repo_dry_run [OF dry, where c = "with_files partly_synced"
        and s = demo_state and repo = "demo_repo ''app''" and rt = demo_runtime]
  have quiet: "read_only demo_state
       (snd (sync_single_repo (with_files partly_synced) demo_runtime dry_config
              (demo_repo ''app'') demo_state))"
    using t by (rule conjunct1)
  have "fst (sync_single_repo (with_files partly_synced) demo_runtime dry_config
            (demo_repo ''app'') demo_state)
     = (new_SyncResult (name (demo_repo ''app'')) SKIPPED)
         \<lparr>message := msg_dry_run (length [\<lparr>filename = ''deploy.yml'', content = deploy_yml,
                                             existing_sha = None\<rparr>]),
          files_updated := map filename [\<lparr>filename = ''deploy.yml'', content = deploy_yml,
                                             existing_sha = None\<rparr>]\<rparr>"
    using t demo_skip [of partly_synced] demo_diff_partly by auto
  then show ?thesis
    using dry quiet by (simp add: demo_repo_def)
qed


text \<open>
  Claim C10. The test for an empty change list comes before the test for dry-run: under
  dry-run, a target that passes the skip check and has no pending change gets the outcome
  \<^verbatim>\<open>NO_CHANGES\<close>; and if a target that passes the skip check gets the outcome \<^verbatim>\<open>SKIPPED\<close>,
  then the diff returned at least one pending change and the outcome is the dry-run one.
\<close>

theorem sync_single_repo_no_changes_before_dry_run:
  assumes "dry_run cfg" and "check_skip_conditions c repo s = (Inr None, s1)"
  shows "(\<forall>s2. get_required_changes c repo s1 = (Inr [], s2) \<longrightarrow>
            sync_single_repo c rt cfg repo s =
              ((new_SyncResult (name repo) NO_CHANGES)\<lparr>message := msg_up_to_date\<rparr>, s2))
       \<and> (status (fst (sync_single_repo c rt cfg repo s)) = SKIPPED \<longrightarrow>
            (\<exists>changes s2.
               get_required_changes c repo s1 = (Inr changes, s2) \<and> changes \<noteq> [] \<and>
               sync_single_repo c rt cfg repo s =
                 ((new_SyncResult (name repo) SKIPPED)
                    \<lparr>message := msg_dry_run (length changes),
                     files_updated := map filename changes\<rparr>, s2)))"
  using assms
  by (cases "get_required_changes c repo s1")
     (auto simp: sync_single_repo_def sync_single_repo_except_def new_SyncResult_def
           split: sum.splits)

theorem sync_single_repo_no_changes_before_dry_run_witness:
  "dry_run dry_config
   \<and> fst (sync_single_repo (with_files fully_synced) demo_runtime dry_config
            (demo_repo ''app'') demo_state)
     = (new_SyncResult ''app'' NO_CHANGES)\<lparr>message := msg_up_to_date\<rparr>
   \<and> status (fst (sync_single_repo (with_files partly_synced) demo_runtime dry_config
            (demo_repo ''app'') demo_state)) = SKIPPED
   \<and> fst (get_required_changes (with_files partly_synced) (demo_repo ''app'')
       (demo_state\<lparr>trace := [(GetOpenPrsWithPrefix (demo_repo ''app'') BRANCH_PREFIX, None)]\<rparr>))
     \<noteq> Inr []"
proof -
  have dry: "dry_run dry_config"
    by (simp add: dry_config_def)
  have skipped: "status (fst (sync_single_repo (with_files partly_synced) demo_runtime dry_config
            (demo_repo ''app'') demo_state)) = SKIPPED"
    using dry demo_skip [of partly_synced] demo_diff_partly
    by (simp add: sync_single_repo_def new_SyncResult_def)
  have up_to_date: "fst (sync_single_repo (with_files fully_synced) demo_runtime dry_config
            (demo_repo ''app'') demo_state)
     = (new_SyncResult (name (demo_repo ''app'')) NO_CHANGES)\<lparr>message := msg_up_to_date\<rparr>"
    using sync_single_repo_no_changes_before_dry_run [OF dry demo_skip,
        where files1 = fully_synced and rt = demo_runtime] demo_diff_fully
    by auto
  have pending: "fst (get_required_changes (with_files partly_synced) (demo_repo ''app'')
       (demo_state\<lparr>trace := [(GetOpenPrsWithPrefix (demo_repo ''app'') BRANCH_PREFIX, None)]\<rparr>))
     \<noteq> Inr []"
    using sync_single_repo_no_changes_before_dry_run [OF dry demo_skip,
        where files1 = partly_synced and rt = demo_runtime] skipped
    by auto
  show ?thesis
    using dry skipped up_to_date pending by (simp add: demo_repo_def)
qed

subsection \<open>The paths of the transaction\<close>

lemma apply_changes_trace:
  "apply_changes c repo b changes updated failed s = ((updated', failed'), s') \<Longrightarrow>
   \<exists>writes. trace s' = trace s @ writes
     \<and> source_workflows s' = source_workflows s
     \<and> map fst writes = map (write_call repo b) changes
     \<and> updated' = updated @ written changes writes
     \<and> failed' = failed @ not_written changes writes"
proof (induction changes arbitrary: updated failed s)
  case Nil
  then show ?case by (simp add: written_def not_written_def)
next
  case (Cons change rest)
  let ?cl = "write_call repo b change"
  obtain r1 s1 where inv: "invoke ?cl
      (create_or_update_file c repo (workflow_path (filename change)) (content change)
         (commit_message change) b (existing_sha change)) s = (r1, s1)"
    by (cases "invoke ?cl
      (create_or_update_file c repo (workflow_path (filename change)) (content change)
         (commit_message change) b (existing_sha change)) s")
  have s1: "trace s1 = trace s @ [(?cl, outcome r1)]" "source_workflows s1 = source_workflows s"
    using inv by (auto simp: invoke_def split: prod.splits)
  show ?case
  proof (cases r1)
    case (Inl e)
    with Cons.prems inv have
      "apply_changes c repo b rest updated (failed @ [filename change]) s1 = ((updated', failed'), s')"
      by (simp add: write_call_def)
    from Cons.IH [OF this] obtain writes where w:
      "trace s' = trace s1 @ writes" "source_workflows s' = source_workflows s1"
      "map fst writes = map (write_call repo b) rest"
      "updated' = updated @ written rest writes"
      "failed' = (failed @ [filename change]) @ not_written rest writes"
      by blast
    show ?thesis
      using w s1 Inl
      by (intro exI [of _ "(?cl, outcome r1) # writes"])
         (simp add: written_def not_written_def outcome_def)
  next
    case (Inr u)
    with Cons.prems inv have
      "apply_changes c repo b rest (updated @ [filename change]) failed s1 = ((updated', failed'), s')"
      by (simp add: write_call_def)
    from Cons.IH [OF this] obtain writes where w:
      "trace s' = trace s1 @ writes" "source_workflows s' = source_workflows s1"
      "map fst writes = map (write_call repo b) rest"
      "updated' = (updated @ [filename change]) @ written rest writes"
      "failed' = failed @ not_written rest writes"
      by blast
    show ?thesis
      using w s1 Inr
      by (intro exI [of _ "(?cl, outcome r1) # writes"])
         (simp add: written_def not_written_def outcome_def)
  qed
qed

lemma written_partition:
  "length writes = length changes \<Longrightarrow>
   length (written changes writes) + length (not_written changes writes) = length changes"
  by (induction changes writes rule: list_induct2') (auto simp: written_def not_written_def)

lemma randint_range:
  assumes "randint rt lo hi s = (r, s')" and "lo \<le> hi"
  shows "lo \<le> r \<and> r \<le> hi \<and> trace s' = trace s \<and> source_workflows s' = source_workflows s"
proof -
  obtain k w' where k: "random_source rt (world s) = (k, w')"
    by (cases "random_source rt (world s)")
  define m where "m = k mod nat (hi - lo + 1)"
  have r: "r = lo + int m" and s': "s' = s\<lparr>world := w'\<rparr>"
    using assms(1) k by (simp_all add: randint_def m_def)
  have "m < nat (hi - lo + 1)"
    unfolding m_def using assms(2) by (intro mod_less_divisor) simp
  then have "int m < hi - lo + 1"
    using assms(2) by linarith
  then show ?thesis
    using r s' by simp
qed

lemma generate_unique_branch_name_cases:
  assumes "generate_unique_branch_name c rt repo s = (r, s')"
  shows "\<exists>t w1 b0.
           time_time rt (world s) = (t, w1)
         \<and> b0 = BRANCH_PREFIX @ ''-'' @ str_int (py_int (float_mul rt t 1000))
         \<and> trace s' = trace s @ [(BranchExists repo b0, outcome r)]
         \<and> source_workflows s' = source_workflows s
         \<and> (\<forall>b. r = Inr b \<longrightarrow>
               (\<exists>taken w2.
                  branch_exists c repo b0 w1 = (Inr taken, w2)
                  \<and> (if taken then
                        \<exists>n. 1000 \<le> n \<and> n \<le> 9999 \<and> b = b0 @ ''-'' @ str_int n
                      else b = b0)))"
proof -
  obtain t w1 where t: "time_time rt (world s) = (t, w1)"
    by (cases "time_time rt (world s)")
  define b0 where "b0 = BRANCH_PREFIX @ ''-'' @ str_int (py_int (float_mul rt t 1000))"
  obtain r2 w2 where ex: "branch_exists c repo b0 w1 = (r2, w2)"
    by (cases "branch_exists c repo b0 w1")
  define s2 where "s2 = s\<lparr>world := w2, trace := trace s @ [(BranchExists repo b0, outcome r2)]\<rparr>"
  have step: "generate_unique_branch_name c rt repo s =
      (case r2 of
         Inl e \<Rightarrow> (Inl e, s2)
       | Inr True \<Rightarrow> (case randint rt 1000 9999 s2 of (n, s3) \<Rightarrow> (Inr (b0 @ ''-'' @ str_int n), s3))
       | Inr False \<Rightarrow> (Inr b0, s2))"
    using t ex
    by (simp add: generate_unique_branch_name_def now_def invoke_def b0_def s2_def Let_def
             split: sum.splits bool.splits)
  show ?thesis
  proof (cases r2)
    case (Inl e)
    with step assms t show ?thesis
      by (auto simp: s2_def b0_def outcome_def)
  next
    case (Inr taken)
    show ?thesis
    proof (cases taken)
      case False
      with Inr step assms t ex show ?thesis
        by (auto simp: s2_def b0_def outcome_def)
    next
      case True
      obtain n s3 where n: "randint rt 1000 9999 s2 = (n, s3)"
        by (cases "randint rt 1000 9999 s2")
      from randint_range [OF n] have
        "1000 \<le> n" "n \<le> 9999" "trace s3 = trace s2" "source_workflows s3 = source_workflows s2"
        by simp_all
      with True Inr step assms t n ex show ?thesis
        by (auto simp: s2_def b0_def outcome_def)
    qed
  qed
qed

lemma generate_unique_branch_name_prefix:
  assumes "generate_unique_branch_name c rt repo s = (Inr b, s')"
  shows "prefix BRANCH_PREFIX b \<and> b \<noteq> []"
  using generate_unique_branch_name_cases [OF assms]
  by (auto simp: BRANCH_PREFIX_def split: if_splits)

lemma invoke_cases:
  obtains r w' where "f (world s) = (r, w')"
    and "invoke cl f s = (r, s\<lparr>world := w', trace := trace s @ [(cl, outcome r)]\<rparr>)"
  by (cases "f (world s)") (simp add: invoke_def)

lemma outcome_simps [simp]: "outcome (Inl e) = Some e" "outcome (Inr v) = None"
  by (simp_all add: outcome_def)

lemma create_sync_pr_except_None:
  "create_sync_pr_except c repo e None updated failed s
     = (Inr (error_result repo e None updated failed), s)"
  by (simp add: create_sync_pr_except_def error_result_def truthy_def)

lemma create_sync_pr_except_Some:
  assumes "create_sync_pr_except c repo e (Some b) updated failed s = (r, s')" and "b \<noteq> []"
  shows "\<exists>x. trace s' = trace s @ [(DeleteBranch repo b, x)]
           \<and> source_workflows s' = source_workflows s
           \<and> r = after_cleanup x (error_result repo e (Some b) updated failed)"
proof -
  obtain r1 w1 where
    "invoke (DeleteBranch repo b) (delete_branch c repo b) s
       = (r1, s\<lparr>world := w1, trace := trace s @ [(DeleteBranch repo b, outcome r1)]\<rparr>)"
    by (rule invoke_cases)
  with assms show ?thesis
    by (cases r1)
       (auto simp: create_sync_pr_except_def error_result_def truthy_def after_cleanup_def)
qed

lemma create_sync_pr_transaction:
  assumes run: "create_sync_pr c rt cfg repo changes s = (r, s')"
  shows "\<exists>evs. trace s' = trace s @ evs \<and> source_workflows s' = source_workflows s
           \<and> transaction cfg repo changes evs r"
proof (cases "default_branch repo")
  case (Inl e)
  with run have "r = Inr (error_result repo e None [] [])" "s' = s"
    by (simp_all add: create_sync_pr_def create_sync_pr_except_None)
  with Inl show ?thesis
    by (auto intro: transaction.no_default_branch)
next
  case (Inr base)
  note base = this
  obtain r1 w1 where i1:
    "invoke (GetBaseSha repo base) (get_base_sha c repo base) s
       = (r1, s\<lparr>world := w1, trace := trace s @ [(GetBaseSha repo base, outcome r1)]\<rparr>)"
    by (rule invoke_cases)
  define s1 where "s1 = s\<lparr>world := w1, trace := trace s @ [(GetBaseSha repo base, outcome r1)]\<rparr>"
  show ?thesis
  proof (cases r1)
    case (Inl e)
    with run base i1 have "r = Inr (error_result repo e None [] [])" "s' = s1"
      by (simp_all add: create_sync_pr_def create_sync_pr_except_None s1_def)
    with Inl base show ?thesis
      by (auto simp: s1_def intro: transaction.base_sha_failed)
  next
    case (Inr sha)
    note sha = this
    obtain r2 s2 where g: "generate_unique_branch_name c rt repo s1 = (r2, s2)"
      by (cases "generate_unique_branch_name c rt repo s1")
    from generate_unique_branch_name_cases [OF g] obtain b0 where
      t2: "trace s2 = trace s1 @ [(BranchExists repo b0, outcome r2)]"
      and w2: "source_workflows s2 = source_workflows s1"
      by blast
    show ?thesis
    proof (cases r2)
      case (Inl e)
      with run base i1 sha g have "r = Inr (error_result repo e None [] [])" "s' = s2"
        by (simp_all add: create_sync_pr_def create_sync_pr_except_None s1_def)
      with Inl base sha t2 w2 show ?thesis
        by (auto simp: s1_def intro: transaction.branch_name_failed)
    next
      case (Inr b)
      note b = this
      have pre: "prefix BRANCH_PREFIX b" and ne: "b \<noteq> []"
        using generate_unique_branch_name_prefix [of c rt repo s1 b s2] g b by auto
      obtain r3 w3 where i3:
        "invoke (CreateBranch repo b sha) (create_branch c repo b sha) s2
           = (r3, s2\<lparr>world := w3, trace := trace s2 @ [(CreateBranch repo b sha, outcome r3)]\<rparr>)"
        by (rule invoke_cases)
      define s3 where
        "s3 = s2\<lparr>world := w3, trace := trace s2 @ [(CreateBranch repo b sha, outcome r3)]\<rparr>"
      have t3: "trace s3 = trace s @ [(GetBaseSha repo base, None), (BranchExists repo b0, None),
                  (CreateBranch repo b sha, outcome r3)]"
        and w3: "source_workflows s3 = source_workflows s"
        using t2 w2 b sha by (simp_all add: s3_def s1_def)
      show ?thesis
      proof (cases r3)
        case (Inl e)
        with run base i1 sha g b i3 have
          "create_sync_pr_except c repo e (Some b) [] [] s3 = (r, s')"
          by (simp add: create_sync_pr_def s1_def s3_def)
        from create_sync_pr_except_Some [OF this ne] obtain x where
          "trace s' = trace s3 @ [(DeleteBranch repo b, x)]"
          "source_workflows s' = source_workflows s3"
          "r = after_cleanup x (error_result repo e (Some b) [] [])"
          by blast
        with Inl t3 w3 show ?thesis
          using transaction.create_branch_failed [OF base pre, of cfg changes b0 sha e x]
          by simp
      next
        case (Inr u)
        note created = this
        obtain updated failed s4 where a:
          "apply_changes c repo b changes [] [] s3 = ((updated, failed), s4)"
          by (cases "apply_changes c repo b changes [] [] s3") auto
        from apply_changes_trace [OF a] obtain writes where
          t4: "trace s4 = trace s3 @ writes"
          and w4: "source_workflows s4 = source_workflows s3"
          and calls: "map fst writes = map (write_call repo b) changes"
          and updated: "updated = written changes writes"
          and failed: "failed = not_written changes writes"
          by auto
        show ?thesis
        proof (cases "updated = []")
          case True
          obtain r5 w5 where i5:
            "invoke (DeleteBranch repo b) (delete_branch c repo b) s4
               = (r5, s4\<lparr>world := w5, trace := trace s4 @ [(DeleteBranch repo b, outcome r5)]\<rparr>)"
            by (rule invoke_cases)
          define s5 where
            "s5 = s4\<lparr>world := w5, trace := trace s4 @ [(DeleteBranch repo b, outcome r5)]\<rparr>"
          show ?thesis
          proof (cases r5)
            case (Inl e)
            with run base i1 sha g b i3 created a True i5 have
              "create_sync_pr_except c repo e (Some b) [] failed s5 = (r, s')"
              by (simp add: create_sync_pr_def s1_def s3_def s5_def)
            from create_sync_pr_except_Some [OF this ne] obtain x where
              "trace s' = trace s5 @ [(DeleteBranch repo b, x)]"
              "source_workflows s' = source_workflows s5"
              "r = after_cleanup x (error_result repo e (Some b) [] failed)"
              by blast
            with Inl t3 w3 t4 w4 created failed show ?thesis
              using transaction.all_writes_failed_cleanup_failed
                      [OF base pre calls, of cfg b0 sha e x] True updated
              by (simp add: s5_def)
          next
            case (Inr u')
            with run base i1 sha g b i3 created a True i5 have
              "r = Inr (all_failed_result repo b failed)" "s' = s5"
              by (simp_all add: create_sync_pr_def s1_def s3_def s5_def all_failed_result_def)
            with Inr t3 w3 t4 w4 created failed show ?thesis
              using transaction.all_writes_failed [OF base pre calls, of cfg b0 sha] True updated
              by (simp add: s5_def)
          qed
        next
          case False
          let ?cl = "pr_call cfg repo b base updated failed"
          obtain r5 w5 where i5:
            "invoke ?cl
               (create_pull_request c repo pr_title
                  (PRBodyGenerator_generate (org cfg) (source_repo cfg) updated failed) b base) s4
               = (r5, s4\<lparr>world := w5, trace := trace s4 @ [(?cl, outcome r5)]\<rparr>)"
            by (rule invoke_cases)
          define s5 where "s5 = s4\<lparr>world := w5, trace := trace s4 @ [(?cl, outcome r5)]\<rparr>"
          show ?thesis
          proof (cases r5)
            case (Inl e)
            with run base i1 sha g b i3 created a False i5 have
              "create_sync_pr_except c repo e (Some b) updated failed s5 = (r, s')"
              by (simp add: create_sync_pr_def s1_def s3_def s5_def pr_call_def)
            from create_sync_pr_except_Some [OF this ne] obtain x where
              "trace s' = trace s5 @ [(DeleteBranch repo b, x)]"
              "source_workflows s' = source_workflows s5"
              "r = after_cleanup x (error_result repo e (Some b) updated failed)"
              by blast
            with Inl t3 w3 t4 w4 created updated failed show ?thesis
              using transaction.pull_request_failed [OF base pre calls, of cfg b0 sha e x] False
              by (simp add: s5_def)
          next
            case (Inr pr)
            with run base i1 sha g b i3 created a False i5 have
              "r = Inr (success_result repo pr b updated failed)" "s' = s5"
              by (simp_all add: create_sync_pr_def s1_def s3_def s5_def pr_call_def
                    success_result_def)
            with Inr t3 w3 t4 w4 created updated failed show ?thesis
              using transaction.pull_request_opened [OF base pre calls, of cfg b0 sha pr] False
              by (simp add: s5_def)
          qed
        qed
      qed
    qed
  qed
qed

lemma write_calls_are_writes:
  "map fst writes = map (write_call repo b) changes \<Longrightarrow> ev \<in> set writes \<Longrightarrow> is_write (fst ev)"
proof -
  assume m: "map fst writes = map (write_call repo b) changes" and "ev \<in> set writes"
  then have "fst ev \<in> set (map (write_call repo b) changes)"
    by (metis image_eqI set_map)
  then show ?thesis by (auto simp: write_call_def)
qed

lemma all_failed_count:
  "map fst writes = map (write_call repo b) changes \<Longrightarrow> written changes writes = [] \<Longrightarrow>
   length (not_written changes writes) = length changes"
  using written_partition [of writes changes] map_eq_imp_length_eq [of fst writes "write_call repo b" changes]
  by simp

lemma some_written_count:
  "map fst writes = map (write_call repo b) changes \<Longrightarrow> written changes writes \<noteq> [] \<Longrightarrow>
   length (not_written changes writes) < length changes"
  using written_partition [of writes changes] map_eq_imp_length_eq [of fst writes "write_call repo b" changes]
  by (cases "written changes writes") auto

lemma unit_world [simp]: "(s :: unit st)\<lparr>world := u\<rparr> = s"
  by simp

lemma demo_state_fields:
  "trace demo_state = []" "world demo_state = ()"
  "source_workflows demo_state = [(''build.yml'', build_yml), (''deploy.yml'', deploy_yml)]"
  by (simp_all add: demo_state_def)

lemma demo_now: "now demo_runtime s = (1700000000, s)"
  by (simp add: now_def demo_runtime_def)

lemma demo_arithmetic:
  "float_mul demo_runtime x y = x * y" "float_sub demo_runtime x y = x - y"
  by (simp_all add: demo_runtime_def)

lemma demo_branch_name:
  "branch_exists c = (\<lambda>repo branch w. (Inr False, w)) \<Longrightarrow>
   generate_unique_branch_name c demo_runtime repo s =
     (Inr demo_branch, s\<lparr>trace := trace s @ [(BranchExists repo demo_branch, None)]\<rparr>)"
  by (simp add: generate_unique_branch_name_def demo_now demo_arithmetic invoke_def
        py_int_def str_int_def str_nat.simps digit_char_def BRANCH_PREFIX_def demo_branch_def
        Let_def)

lemma demo_repo_fields:
  "name (demo_repo n) = n" "archived (demo_repo n) = False"
  "default_branch (demo_repo n) = Inr ''main''"
  by (simp_all add: demo_repo_def)

lemma rejecting_fields:
  "get_base_sha (rejecting paths) = (\<lambda>repo branch w. (Inr ''0a1b2c'', w))"
  "branch_exists (rejecting paths) = (\<lambda>repo branch w. (Inr False, w))"
  "create_branch (rejecting paths) = (\<lambda>repo branch sha w. (Inr (), w))"
  "delete_branch (rejecting paths) = (\<lambda>repo branch w. (Inr (), w))"
  "create_pull_request (rejecting paths) = (\<lambda>repo title body head' base w. (Inr demo_pr, w))"
  "create_or_update_file (rejecting paths) =
     (\<lambda>repo path cont msg branch sha w. (if path \<in> set paths then Inl conflict else Inr (), w))"
  by (simp_all add: rejecting_def demo_client_def)

lemma demo_partial_run:
  "create_sync_pr (rejecting [workflow_path ''deploy.yml'']) demo_runtime demo_config
     (demo_repo ''app'') demo_changes demo_state =
   (Inr (success_result (demo_repo ''app'') demo_pr demo_branch [''build.yml''] [''deploy.yml'']),
    demo_state\<lparr>trace :=
      [(GetBaseSha (demo_repo ''app'') ''main'', None),
       (BranchExists (demo_repo ''app'') demo_branch, None),
       (CreateBranch (demo_repo ''app'') demo_branch ''0a1b2c'', None),
       (write_call (demo_repo ''app'') demo_branch (demo_changes ! 0), None),
       (write_call (demo_repo ''app'') demo_branch (demo_changes ! 1), Some conflict),
       (pr_call demo_config (demo_repo ''app'') demo_branch ''main'' [''build.yml'']
          [''deploy.yml''], None)]\<rparr>)"
  by (simp add: create_sync_pr_def demo_branch_name rejecting_fields demo_repo_fields
        invoke_def demo_state_fields demo_changes_def success_result_def
        write_call_def pr_call_def workflow_path_def)

lemma demo_total_failure_run:
  "create_sync_pr (rejecting [workflow_path ''build.yml'', workflow_path ''deploy.yml''])
     demo_runtime demo_config (demo_repo ''app'') demo_changes demo_state =
   (Inr (all_failed_result (demo_repo ''app'') demo_branch [''build.yml'', ''deploy.yml'']),
    demo_state\<lparr>trace :=
      [(GetBaseSha (demo_repo ''app'') ''main'', None),
       (BranchExists (demo_repo ''app'') demo_branch, None),
       (CreateBranch (demo_repo ''app'') demo_branch ''0a1b2c'', None),
       (write_call (demo_repo ''app'') demo_branch (demo_changes ! 0), Some conflict),
       (write_call (demo_repo ''app'') demo_branch (demo_changes ! 1), Some conflict),
       (DeleteBranch (demo_repo ''app'') demo_branch, None)]\<rparr>)"
  by (simp add: create_sync_pr_def demo_branch_name rejecting_fields demo_repo_fields
        invoke_def demo_state_fields demo_changes_def all_failed_result_def
        write_call_def workflow_path_def)

subsection \<open>Partial writes\<close>

text \<open>
  Claim C1. Take a run of \<^verbatim>\<open>_create_sync_pr\<close> on a target whose default branch can be read,
  in which no call to the client other than the file writes fails. Then the base commit is
  resolved, a branch \<open>b\<close> is created, and every one of the \<open>N\<close> pending changes is written
  once, in order. If fewer than \<open>N\<close> writes failed, a pull request is opened from \<open>b\<close>
  after the writes and the result is \<^verbatim>\<open>SUCCESS\<close> with the written file names in
  \<^verbatim>\<open>files_updated\<close>, the failed ones in \<^verbatim>\<open>files_failed\<close>, and \<open>b\<close> in \<^verbatim>\<open>branch_created\<close>. If
  all \<open>N\<close> writes failed, the last call deletes the branch \<open>b\<close>, no pull request call is
  made, and the result is \<^verbatim>\<open>ERROR\<close> with all file names in \<^verbatim>\<open>files_failed\<close>.
\<close>

theorem create_sync_pr_partial_writes:
  assumes run: "create_sync_pr c rt cfg repo changes s = (r, s')"
    and base: "default_branch repo = Inr base"
    and others: "\<forall>ev \<in> set (new_events s s'). \<not> is_write (fst ev) \<longrightarrow> snd ev = None"
  shows "\<exists>b0 b sha writes.
           map fst writes = map (write_call repo b) changes
         \<and> length (written changes writes) + length (not_written changes writes) = length changes
         \<and> (if length (not_written changes writes) < length changes then
              \<exists>pr. r = Inr (success_result repo pr b (written changes writes)
                              (not_written changes writes))
                 \<and> trace s' = trace s
                     @ [(GetBaseSha repo base, None), (BranchExists repo b0, None),
                        (CreateBranch repo b sha, None)]
                     @ writes
                     @ [(pr_call cfg repo b base (written changes writes)
                           (not_written changes writes), None)]
            else
              r = Inr (all_failed_result repo b (not_written changes writes))
              \<and> trace s' = trace s
                  @ [(GetBaseSha repo base, None), (BranchExists repo b0, None),
                     (CreateBranch repo b sha, None)]
                  @ writes
                  @ [(DeleteBranch repo b, None)])"
proof -
  from create_sync_pr_transaction [OF run] obtain evs where
    tr: "trace s' = trace s @ evs" and path: "transaction cfg repo changes evs r"
    by blast
  have ok: "\<And>ev. ev \<in> set evs \<Longrightarrow> \<not> is_write (fst ev) \<Longrightarrow> snd ev = None"
    using others new_events_append [OF tr] by simp
  from path show ?thesis
  proof cases
    case (no_default_branch e)
    with base show ?thesis by simp
  next
    case (base_sha_failed base' e)
    with ok [of "(GetBaseSha repo base', Some e)"] show ?thesis by simp
  next
    case (branch_name_failed base' b0 e)
    with ok [of "(BranchExists repo b0, Some e)"] show ?thesis by simp
  next
    case (create_branch_failed base' b b0 sha e x)
    with ok [of "(CreateBranch repo b sha, Some e)"] show ?thesis by simp
  next
    case (all_writes_failed base' b writes b0 sha)
    have "length (not_written changes writes) = length changes"
      using all_failed_count all_writes_failed by blast
    with all_writes_failed base tr written_partition [of writes changes] show ?thesis
      by - (rule exI [of _ b0], rule exI [of _ b], rule exI [of _ sha], rule exI [of _ writes],
            simp)
  next
    case (all_writes_failed_cleanup_failed base' b writes b0 sha e x)
    with ok [of "(DeleteBranch repo b, Some e)"] show ?thesis by simp
  next
    case (pull_request_opened base' b writes b0 sha pr)
    have "length (not_written changes writes) < length changes"
      using some_written_count pull_request_opened by blast
    moreover have "length (written changes writes) + length (not_written changes writes)
        = length changes"
      using written_partition [of writes changes] pull_request_opened(5)
        map_eq_imp_length_eq [of fst writes "write_call repo b" changes] by simp
    moreover have "\<exists>pr'. r = Inr (success_result repo pr' b (written changes writes)
                              (not_written changes writes))
                 \<and> trace s' = trace s
                     @ [(GetBaseSha repo base, None), (BranchExists repo b0, None),
                        (CreateBranch repo b sha, None)]
                     @ writes
                     @ [(pr_call cfg repo b base (written changes writes)
                           (not_written changes writes), None)]"
      using pull_request_opened base tr by (intro exI [of _ pr]) simp
    ultimately show ?thesis
      using pull_request_opened(5)
      by - (rule exI [of _ b0], rule exI [of _ b], rule exI [of _ sha], rule exI [of _ writes],
            simp)
  next
    case (pull_request_failed base' b writes b0 sha e x)
    with ok [of "(pr_call cfg repo b base' (written changes writes)
        (not_written changes writes), Some e)"]
    show ?thesis by (simp add: pr_call_def)
  qed
qed

theorem create_sync_pr_partial_writes_witness:
  "default_branch (demo_repo ''app'') = Inr ''main''
   \<and> fst (create_sync_pr (rejecting [workflow_path ''deploy.yml'']) demo_runtime demo_config
            (demo_repo ''app'') demo_changes demo_state)
     = Inr (success_result (demo_repo ''app'') demo_pr demo_branch [''build.yml'']
              [''deploy.yml''])
   \<and> fst (create_sync_pr (rejecting [workflow_path ''build.yml'', workflow_path ''deploy.yml''])
            demo_runtime demo_config (demo_repo ''app'') demo_changes demo_state)
     = Inr (all_failed_result (demo_repo ''app'') demo_branch [''build.yml'', ''deploy.yml''])"
proof -
  have base: "default_branch (demo_repo ''app'') = Inr ''main''"
    by (simp add: demo_repo_fields)
  have partial: "\<forall>ev \<in> set (new_events demo_state
      (snd (create_sync_pr (rejecting [workflow_path ''deploy.yml'']) demo_runtime demo_config
        (demo_repo ''app'') demo_changes demo_state))).
      \<not> is_write (fst ev) \<longrightarrow> snd ev = None"
    by (simp add: demo_partial_run new_events_def demo_state_fields pr_call_def write_call_def)
  have total: "\<forall>ev \<in> set (new_events demo_state
      (snd (create_sync_pr (rejecting [workflow_path ''build.yml'', workflow_path ''deploy.yml''])
        demo_runtime demo_config (demo_repo ''app'') demo_changes demo_state))).
      \<not> is_write (fst ev) \<longrightarrow> snd ev = None"
    by (simp add: demo_total_failure_run new_events_def demo_state_fields write_call_def)
  show ?thesis
    using create_sync_pr_partial_writes [OF surjective_pairing base partial]
      create_sync_pr_partial_writes [OF surjective_pairing base total]
      base demo_partial_run demo_total_failure_run
    by simp
qed

subsection \<open>Cleanup of the branch\<close>

lemma create_sync_pr_except_raises:
  "create_sync_pr_except c repo e0 bn updated failed s = (Inl e, s') \<Longrightarrow>
   \<exists>b w w'. delete_branch c repo b w = (Inl e, w')"
  by (auto simp: create_sync_pr_except_def invoke_def Let_def
           split: if_splits prod.splits sum.splits)

lemma create_sync_pr_raises:
  assumes "create_sync_pr c rt cfg repo changes s = (Inl e, s')"
  shows "\<exists>b w w'. delete_branch c repo b w = (Inl e, w')"
  using assms
  by (auto simp: create_sync_pr_def Let_def
           split: sum.splits prod.splits if_splits
           dest!: create_sync_pr_except_raises)

lemma delete_branch_except_raises:
  "delete_branch_except repo b e0 w = (Inl e, w') \<Longrightarrow> \<not> is_GithubException e"
  by (auto simp: delete_branch_except_def split: if_splits)

lemma GitHubClient_delete_branch_raises:
  "GitHubClient_delete_branch py repo b w = (Inl e, w') \<Longrightarrow> \<not> is_GithubException e"
  by (auto simp: GitHubClient_delete_branch_def
           split: prod.splits sum.splits dest: delete_branch_except_raises)

lemma transaction_error_after_branch:
  assumes "transaction cfg repo changes evs (Inr result)" and "status result = ERROR"
    and "(CreateBranch repo b sha, None) \<in> set evs"
  shows "evs \<noteq> [] \<and> last evs = (DeleteBranch repo b, None) \<and> branch_created result = Some b"
  using assms
proof (cases rule: transaction.cases)
  case (all_writes_failed base b' writes b0 sha')
  then show ?thesis
    using assms(3) write_calls_are_writes [OF all_writes_failed(5), of "(CreateBranch repo b sha, None)"]
    by (auto simp: all_failed_result_def)
next
  case (all_writes_failed_cleanup_failed base b' writes b0 sha' e x)
  then show ?thesis
    using assms(3) write_calls_are_writes [OF all_writes_failed_cleanup_failed(5), of "(CreateBranch repo b sha, None)"]
    by (auto simp: after_cleanup_def error_result_def split: option.splits)
next
  case (pull_request_opened base b' writes b0 sha' pr)
  then show ?thesis
    using assms(2) by (simp add: success_result_def new_SyncResult_def)
next
  case (pull_request_failed base b' writes b0 sha' e x)
  then show ?thesis
    using assms(3) write_calls_are_writes [OF pull_request_failed(5), of "(CreateBranch repo b sha, None)"]
    by (auto simp: after_cleanup_def error_result_def pr_call_def split: option.splits)
qed (use assms(3) in \<open>auto simp: after_cleanup_def split: option.splits\<close>)

lemma offline_fields:
  "get_base_sha offline_client = (\<lambda>repo branch w. (Inr ''0a1b2c'', w))"
  "branch_exists offline_client = (\<lambda>repo branch w. (Inr False, w))"
  "create_branch offline_client = (\<lambda>repo branch sha w. (Inr (), w))"
  "delete_branch offline_client = GitHubClient_delete_branch offline_py"
  "create_or_update_file offline_client =
     (\<lambda>repo path cont msg branch sha w. (Inl timeout_error, w))"
  by (simp_all add: offline_client_def demo_client_def)

lemma offline_delete_branch:
  "GitHubClient_delete_branch offline_py repo b w = (Inl timeout_error, w)"
  by (simp add: GitHubClient_delete_branch_def remote_call_def offline_py_def
        delete_branch_except_def timeout_error_def)

lemma offline_run:
  "create_sync_pr offline_client demo_runtime demo_config (demo_repo ''app'') demo_changes
     client_state =
   (Inl timeout_error,
    client_state\<lparr>trace :=
      [(GetBaseSha (demo_repo ''app'') ''main'', None),
       (BranchExists (demo_repo ''app'') demo_branch, None),
       (CreateBranch (demo_repo ''app'') demo_branch ''0a1b2c'', None),
       (write_call (demo_repo ''app'') demo_branch (demo_changes ! 0), Some timeout_error),
       (write_call (demo_repo ''app'') demo_branch (demo_changes ! 1), Some timeout_error),
       (DeleteBranch (demo_repo ''app'') demo_branch, Some timeout_error),
       (DeleteBranch (demo_repo ''app'') demo_branch, Some timeout_error)]\<rparr>)"
  by (simp add: create_sync_pr_def create_sync_pr_except_def demo_branch_name
        offline_fields offline_delete_branch demo_repo_fields truthy_def demo_branch_def
        invoke_def client_state_def demo_changes_def write_call_def workflow_path_def)

text \<open>
  What the cleanup does. Whenever \<^verbatim>\<open>_create_sync_pr\<close> returns an \<^verbatim>\<open>ERROR\<close> result after its
  branch \<open>b\<close> was created, its last call to the client is \<^verbatim>\<open>delete_branch\<close> on \<open>b\<close>, and the
  result carries \<open>b\<close>. With \<^verbatim>\<open>GitHubClient.delete_branch\<close>, a \<^verbatim>\<open>GithubException\<close> raised while
  the reference is looked up or deleted is logged as a warning and goes no further, so
  \<^verbatim>\<open>_create_sync_pr\<close> never raises a \<^verbatim>\<open>GithubException\<close>. An exception of any other class
  passes through \<^verbatim>\<open>GitHubClient.delete_branch\<close>, which then logs nothing.
\<close>

lemma branch_cleanup:
  "(\<forall>result.
      create_sync_pr c rt cfg repo changes s = (Inr result, s') \<and> status result = ERROR \<and>
      (CreateBranch repo b sha, None) \<in> set (new_events s s') \<longrightarrow>
      last (new_events s s') = (DeleteBranch repo b, None) \<and> branch_created result = Some b)
   \<and> (\<forall>e. delete_branch c2 = GitHubClient_delete_branch py \<and>
            create_sync_pr c2 rt2 cfg repo changes s2 = (Inl e, s2') \<longrightarrow>
            \<not> is_GithubException e)
   \<and> (\<forall>e p'.
         is_GithubException e \<and>
         repo_get_git_ref py repo (''heads/'' @ b) (remote w) = (Inl e, p') \<longrightarrow>
         GitHubClient_delete_branch py repo b w =
           (Inr (), logged LOG_WARNING (msg_branch_not_deleted b repo e) (w\<lparr>remote := p'\<rparr>)))
   \<and> (\<forall>e r p1 p2.
         is_GithubException e \<and>
         repo_get_git_ref py repo (''heads/'' @ b) (remote w) = (Inr r, p1) \<and>
         ref_delete py repo r p1 = (Inl e, p2) \<longrightarrow>
         GitHubClient_delete_branch py repo b w =
           (Inr (), logged LOG_WARNING (msg_branch_not_deleted b repo e) (w\<lparr>remote := p2\<rparr>)))"
proof -
  have attempted: "last (new_events s s') = (DeleteBranch repo b, None)
      \<and> branch_created result = Some b"
    if run: "create_sync_pr c rt cfg repo changes s = (Inr result, s')"
      and err: "status result = ERROR"
      and created: "(CreateBranch repo b sha, None) \<in> set (new_events s s')"
    for result
  proof -
    from create_sync_pr_transaction [OF run] obtain evs where
      tr: "trace s' = trace s @ evs" and path: "transaction cfg repo changes evs (Inr result)"
      by blast
    have "(CreateBranch repo b sha, None) \<in> set evs"
      using created new_events_append [OF tr] by simp
    from transaction_error_after_branch [OF path err this] show ?thesis
      using new_events_append [OF tr] by simp
  qed
  have swallowed: "\<not> is_GithubException e"
    if "delete_branch c2 = GitHubClient_delete_branch py"
      and "create_sync_pr c2 rt2 cfg repo changes s2 = (Inl e, s2')" for e
    using create_sync_pr_raises [OF that(2)] that(1) GitHubClient_delete_branch_raises
    by metis
  have lookup: "GitHubClient_delete_branch py repo b w =
           (Inr (), logged LOG_WARNING (msg_branch_not_deleted b repo e) (w\<lparr>remote := p'\<rparr>))"
    if "is_GithubException e"
      and "repo_get_git_ref py repo (''heads/'' @ b) (remote w) = (Inl e, p')" for e p'
    using that
    by (simp add: GitHubClient_delete_branch_def remote_call_def delete_branch_except_def)
  have deletion: "GitHubClient_delete_branch py repo b w =
           (Inr (), logged LOG_WARNING (msg_branch_not_deleted b repo e) (w\<lparr>remote := p2\<rparr>))"
    if "is_GithubException e"
      and "repo_get_git_ref py repo (''heads/'' @ b) (remote w) = (Inr r, p1)"
      and "ref_delete py repo r p1 = (Inl e, p2)" for e r p1 p2
    using that
    by (simp add: GitHubClient_delete_branch_def remote_call_def delete_branch_except_def)
  show ?thesis
    using attempted swallowed lookup deletion by blast
qed

lemma GitHubClient_delete_branch_passes:
  "\<not> is_GithubException e \<Longrightarrow>
   repo_get_git_ref py repo (''heads/'' @ b) (remote w) = (Inl e, p') \<Longrightarrow>
   GitHubClient_delete_branch py repo b w = (Inl e, w\<lparr>remote := p'\<rparr>)"
  "\<not> is_GithubException e \<Longrightarrow>
   repo_get_git_ref py repo (''heads/'' @ b) (remote w) = (Inr r, p1) \<Longrightarrow>
   ref_delete py repo r p1 = (Inl e, p2) \<Longrightarrow>
   GitHubClient_delete_branch py repo b w = (Inl e, w\<lparr>remote := p2\<rparr>)"
  by (simp_all add: GitHubClient_delete_branch_def remote_call_def delete_branch_except_def)

lemma offline_reads:
  "get_open_prs_with_prefix offline_client = (\<lambda>repo pre w. (Inr [], w))"
  "get_file_content offline_client = (\<lambda>repo path w. (Inr None, w))"
  by (simp_all add: offline_client_def demo_client_def)

lemma client_state_fields:
  "trace client_state = []" "world client_state = quiet_world"
  "source_workflows client_state = [(''build.yml'', build_yml), (''deploy.yml'', deploy_yml)]"
  by (simp_all add: client_state_def)

lemma demo_config_fields:
  "\<not> dry_run demo_config" "org demo_config = ''acme''" "source_repo demo_config = ''templates''"
  "max_workers demo_config = 4"
  by (simp_all add: demo_config_def)

lemma branches_differ: "later_branch \<noteq> demo_branch" "demo_branch \<noteq> []" "later_branch \<noteq> []"
  by (simp_all add: later_branch_def demo_branch_def)

lemma offline_target:
  "fst (sync_single_repo offline_client demo_runtime demo_config (demo_repo ''app'') client_state)
     = sync_single_repo_except (demo_repo ''app'') timeout_error"
  by (simp add: sync_single_repo_def check_skip_conditions_def get_required_changes_def
        create_sync_pr_def create_sync_pr_except_def demo_branch_name offline_fields
        offline_reads offline_delete_branch demo_repo_fields demo_config_fields invoke_def
        client_state_fields truthy_def branches_differ)

text \<open>
  Claim C5, at an input where the code does not do what the claim says. The network fails
  after the branch of the target was created: the two writes and the lookup of the
  reference inside \<^verbatim>\<open>GitHubClient.delete_branch\<close> time out, with an exception that is not a
  \<^verbatim>\<open>GithubException\<close>. \<^verbatim>\<open>delete_branch\<close> does not catch it and logs nothing. The deletion of
  the path on which every write failed raises; the handler of \<^verbatim>\<open>_create_sync_pr\<close> calls
  \<^verbatim>\<open>delete_branch\<close> once more, outside any \<^verbatim>\<open>try\<close>, and \<^verbatim>\<open>_create_sync_pr\<close> raises the timeout
  instead of returning an \<^verbatim>\<open>ERROR\<close> result. \<^verbatim>\<open>sync_single_repo\<close> catches it and returns a result
  that names no branch and no failed file, while the branch stays on the remote side.
\<close>

theorem cleanup_failure_propagates:
  "fst (create_sync_pr offline_client demo_runtime demo_config (demo_repo ''app'') demo_changes
          client_state) = Inl timeout_error
   \<and> \<not> is_GithubException timeout_error
   \<and> new_events client_state
       (snd (create_sync_pr offline_client demo_runtime demo_config (demo_repo ''app'')
               demo_changes client_state))
     = [(GetBaseSha (demo_repo ''app'') ''main'', None),
        (BranchExists (demo_repo ''app'') demo_branch, None),
        (CreateBranch (demo_repo ''app'') demo_branch ''0a1b2c'', None),
        (write_call (demo_repo ''app'') demo_branch (demo_changes ! 0), Some timeout_error),
        (write_call (demo_repo ''app'') demo_branch (demo_changes ! 1), Some timeout_error),
        (DeleteBranch (demo_repo ''app'') demo_branch, Some timeout_error),
        (DeleteBranch (demo_repo ''app'') demo_branch, Some timeout_error)]
   \<and> effects (world (snd (create_sync_pr offline_client demo_runtime demo_config
          (demo_repo ''app'') demo_changes client_state))) = []
   \<and> fst (sync_single_repo offline_client demo_runtime demo_config (demo_repo ''app'')
            client_state)
     = (new_SyncResult ''app'' ERROR)\<lparr>message := ''Error: read timed out''\<rparr>
   \<and> files_failed (fst (sync_single_repo offline_client demo_runtime demo_config
                          (demo_repo ''app'') client_state)) = []
   \<and> branch_created (fst (sync_single_repo offline_client demo_runtime demo_config
                             (demo_repo ''app'') client_state)) = None"
  unfolding offline_run offline_target
  by (simp add: client_state_def quiet_world_def new_events_def timeout_error_def
        sync_single_repo_except_def new_SyncResult_def demo_repo_fields)

subsection \<open>Branch names and the guard against a second pull request\<close>

lemma transaction_branches:
  assumes "transaction cfg repo changes evs r"
  shows "(\<forall>repo' b sha x. (CreateBranch repo' b sha, x) \<in> set evs \<longrightarrow> prefix BRANCH_PREFIX b)
       \<and> (\<forall>repo' title body head' base x.
             (CreatePullRequest repo' title body head' base, x) \<in> set evs \<longrightarrow>
             prefix BRANCH_PREFIX head')"
  using assms
proof (cases rule: transaction.cases)
  case (all_writes_failed base b writes b0 sha)
  then show ?thesis
    using write_calls_are_writes [OF all_writes_failed(5)] by fastforce
next
  case (all_writes_failed_cleanup_failed base b writes b0 sha e x)
  then show ?thesis
    using write_calls_are_writes [OF all_writes_failed_cleanup_failed(5)] by fastforce
next
  case (pull_request_opened base b writes b0 sha pr)
  then show ?thesis
    using write_calls_are_writes [OF pull_request_opened(5)]
    by (fastforce simp: pr_call_def)
next
  case (pull_request_failed base b writes b0 sha e x)
  then show ?thesis
    using write_calls_are_writes [OF pull_request_failed(5)]
    by (fastforce simp: pr_call_def)
qed auto

lemma get_open_prs_with_prefix_finds:
  assumes "repo_get_pulls py repo ''open'' (remote w) = ((pulls, stopped), p')"
    and "\<forall>e. stopped = Some e \<longrightarrow> is_GithubException e"
    and "pr \<in> set pulls" and "prefix pre (head_ref pr)"
  shows "\<exists>urls w'. GitHubClient_get_open_prs_with_prefix py repo pre w = (Inr urls, w')
           \<and> html_url pr \<in> set urls"
  using assms
  by (cases stopped)
     (auto simp: GitHubClient_get_open_prs_with_prefix_def remote_call_def Let_def)

lemma guarded_skip:
  "fst (check_skip_conditions guarded_client (demo_repo ''app'') client_state)
     = Inr (Some ((new_SyncResult ''app'' SKIPPED)\<lparr>message := msg_existing_pr (fst demo_pr)\<rparr>))"
  by (simp add: check_skip_conditions_def guarded_client_def demo_client_def demo_repo_fields
        invoke_def GitHubClient_get_open_prs_with_prefix_def remote_call_def listing_py_def
        offline_py_def other_pr_def open_sync_pr_def BRANCH_PREFIX_def demo_branch_def)

text \<open>
  Claim C9. A name returned by \<^verbatim>\<open>_generate_unique_branch_name\<close> starts with the reserved
  prefix: it is the prefix, a hyphen and the timestamp when no branch of that name exists,
  and that name followed by a hyphen and a number between 1000 and 9999 when one does. The
  timestamp is \<^verbatim>\<open>int(time.time() * 1000)\<close>: the clock's seconds times 1000 as the platform
  multiplies two floats (\<open>float_mul\<close>), truncated to an integer. Every branch that \<^verbatim>\<open>_create_sync_pr\<close> asks the
  client to create, and the head of every pull request it asks for, has such a name. And
  the guard of a later run finds it: when \<^verbatim>\<open>GitHubClient.get_open_prs_with_prefix\<close> lists
  the open pull requests of the target (to the end, or until a \<^verbatim>\<open>GithubException\<close>) and one
  of them is on a branch with the prefix, \<^verbatim>\<open>_check_skip_conditions\<close> skips a target that is
  not archived and has a default branch, with the URL of an existing sync pull request.
\<close>

theorem sync_branch_names_match_guard:
  "(\<forall>b. generate_unique_branch_name c rt repo s = (Inr b, s1) \<longrightarrow>
      prefix BRANCH_PREFIX b
      \<and> (\<exists>t w1 taken w2.
            time_time rt (world s) = (t, w1)
          \<and> branch_exists c repo (BRANCH_PREFIX @ ''-'' @ str_int (py_int (float_mul rt t 1000))) w1
              = (Inr taken, w2)
          \<and> (if taken then
                \<exists>n. 1000 \<le> n \<and> n \<le> 9999
                  \<and> b = (BRANCH_PREFIX @ ''-'' @ str_int (py_int (float_mul rt t 1000)))
                        @ ''-'' @ str_int n
              else b = BRANCH_PREFIX @ ''-'' @ str_int (py_int (float_mul rt t 1000)))))
   \<and> (create_sync_pr c rt cfg repo changes s = (r, s') \<longrightarrow>
        (\<forall>repo' b sha x.
           (CreateBranch repo' b sha, x) \<in> set (new_events s s') \<longrightarrow> prefix BRANCH_PREFIX b)
        \<and> (\<forall>repo' title body head' base x.
              (CreatePullRequest repo' title body head' base, x) \<in> set (new_events s s') \<longrightarrow>
              prefix BRANCH_PREFIX head'))
   \<and> (\<forall>pulls stopped p' pr base.
         get_open_prs_with_prefix c2 = GitHubClient_get_open_prs_with_prefix py \<and>
         repo_get_pulls py repo ''open'' (remote (world s2)) = ((pulls, stopped), p') \<and>
         (\<forall>e. stopped = Some e \<longrightarrow> is_GithubException e) \<and>
         pr \<in> set pulls \<and> prefix BRANCH_PREFIX (head_ref pr) \<and>
         \<not> archived repo \<and> default_branch repo = Inr base \<and> base \<noteq> [] \<longrightarrow>
         (\<exists>url. fst (check_skip_conditions c2 repo s2)
                  = Inr (Some ((new_SyncResult (name repo) SKIPPED)
                                 \<lparr>message := msg_existing_pr url\<rparr>))))"
proof -
  have named: "prefix BRANCH_PREFIX b
      \<and> (\<exists>t w1 taken w2.
            time_time rt (world s) = (t, w1)
          \<and> branch_exists c repo (BRANCH_PREFIX @ ''-'' @ str_int (py_int (float_mul rt t 1000))) w1
              = (Inr taken, w2)
          \<and> (if taken then
                \<exists>n. 1000 \<le> n \<and> n \<le> 9999
                  \<and> b = (BRANCH_PREFIX @ ''-'' @ str_int (py_int (float_mul rt t 1000)))
                        @ ''-'' @ str_int n
              else b = BRANCH_PREFIX @ ''-'' @ str_int (py_int (float_mul rt t 1000))))"
    if g: "generate_unique_branch_name c rt repo s = (Inr b, s1)" for b
  proof -
    from generate_unique_branch_name_cases [OF g] obtain t w1 taken w2 where
      "time_time rt (world s) = (t, w1)"
      "branch_exists c repo (BRANCH_PREFIX @ ''-'' @ str_int (py_int (float_mul rt t 1000))) w1
         = (Inr taken, w2)"
      "if taken then
         \<exists>n. 1000 \<le> n \<and> n \<le> 9999
           \<and> b = (BRANCH_PREFIX @ ''-'' @ str_int (py_int (float_mul rt t 1000))) @ ''-'' @ str_int n
       else b = BRANCH_PREFIX @ ''-'' @ str_int (py_int (float_mul rt t 1000))"
      by blast
    with generate_unique_branch_name_prefix [OF g] show ?thesis
      by blast
  qed
  have created: "(\<forall>repo' b sha x.
           (CreateBranch repo' b sha, x) \<in> set (new_events s s') \<longrightarrow> prefix BRANCH_PREFIX b)
        \<and> (\<forall>repo' title body head' base x.
              (CreatePullRequest repo' title body head' base, x) \<in> set (new_events s s') \<longrightarrow>
              prefix BRANCH_PREFIX head')"
    if run: "create_sync_pr c rt cfg repo changes s = (r, s')"
  proof -
    from create_sync_pr_transaction [OF run] obtain evs where
      tr: "trace s' = trace s @ evs" and path: "transaction cfg repo changes evs r"
      by blast
    show ?thesis
      using transaction_branches [OF path] new_events_append [OF tr] by simp
  qed
  have guarded: "\<exists>url. fst (check_skip_conditions c2 repo s2)
                  = Inr (Some ((new_SyncResult (name repo) SKIPPED)
                                 \<lparr>message := msg_existing_pr url\<rparr>))"
    if client: "get_open_prs_with_prefix c2 = GitHubClient_get_open_prs_with_prefix py"
      and pulls: "repo_get_pulls py repo ''open'' (remote (world s2)) = ((pulls, stopped), p')"
      and stopped: "\<forall>e. stopped = Some e \<longrightarrow> is_GithubException e"
      and pr: "pr \<in> set pulls" "prefix BRANCH_PREFIX (head_ref pr)"
      and repo: "\<not> archived repo" "default_branch repo = Inr base" "base \<noteq> []"
    for pulls stopped p' pr base
  proof -
    from get_open_prs_with_prefix_finds [OF pulls stopped pr] obtain urls w' where
      found: "GitHubClient_get_open_prs_with_prefix py repo BRANCH_PREFIX (world s2)
                = (Inr urls, w')"
      and "html_url pr \<in> set urls"
      by blast
    then obtain url rest where "urls = url # rest"
      by (cases urls) auto
    with found client repo show ?thesis
      by (auto simp: check_skip_conditions_def invoke_def)
  qed
  show ?thesis
    using named created guarded by blast
qed

theorem sync_branch_names_match_guard_witness:
  "fst (generate_unique_branch_name (rejecting [workflow_path ''deploy.yml'']) demo_runtime
          (demo_repo ''app'') demo_state)
     = Inr demo_branch
   \<and> prefix BRANCH_PREFIX demo_branch
   \<and> (CreateBranch (demo_repo ''app'') demo_branch ''0a1b2c'', None)
       \<in> set (new_events demo_state
           (snd (create_sync_pr (rejecting [workflow_path ''deploy.yml'']) demo_runtime
                  demo_config (demo_repo ''app'') demo_changes demo_state)))
   \<and> open_sync_pr \<in> set [other_pr, open_sync_pr]
   \<and> prefix BRANCH_PREFIX (head_ref open_sync_pr)
   \<and> fst (check_skip_conditions guarded_client (demo_repo ''app'') client_state)
     = Inr (Some ((new_SyncResult ''app'' SKIPPED)\<lparr>message := msg_existing_pr (fst demo_pr)\<rparr>))"
proof -
  note t = sync_branch_names_match_guard
    [where c = "rejecting [workflow_path ''deploy.yml''] :: unit IGitHubClient"
       and rt = demo_runtime and cfg = demo_config and repo = "demo_repo ''app''"
       and changes = demo_changes and s = demo_state
       and ?s1.0 = "demo_state\<lparr>trace := trace demo_state
                       @ [(BranchExists (demo_repo ''app'') demo_branch, None)]\<rparr>"
       and r = "fst (create_sync_pr (rejecting [workflow_path ''deploy.yml'']) demo_runtime
                  demo_config (demo_repo ''app'') demo_changes demo_state)"
       and s' = "snd (create_sync_pr (rejecting [workflow_path ''deploy.yml'']) demo_runtime
                  demo_config (demo_repo ''app'') demo_changes demo_state)"
       and ?c2.0 = "guarded_client :: unit client_world IGitHubClient"
       and py = "listing_py :: unit PyGithub" and ?s2.0 = client_state]
  have named: "generate_unique_branch_name (rejecting [workflow_path ''deploy.yml''])
        demo_runtime (demo_repo ''app'') demo_state
      = (Inr demo_branch,
         demo_state\<lparr>trace := trace demo_state
           @ [(BranchExists (demo_repo ''app'') demo_branch, None)]\<rparr>)"
    by (rule demo_branch_name [OF rejecting_fields(2)])
  have pre: "prefix BRANCH_PREFIX demo_branch"
    using t named by blast
  have created: "(CreateBranch (demo_repo ''app'') demo_branch ''0a1b2c'', None)
       \<in> set (new_events demo_state
           (snd (create_sync_pr (rejecting [workflow_path ''deploy.yml'']) demo_runtime
                  demo_config (demo_repo ''app'') demo_changes demo_state)))"
    by (simp add: demo_partial_run new_events_def demo_state_fields)
  have listed: "get_open_prs_with_prefix (guarded_client :: unit client_world IGitHubClient)
        = GitHubClient_get_open_prs_with_prefix listing_py"
      "repo_get_pulls listing_py (demo_repo ''app'') ''open'' (remote (world client_state))
        = (([other_pr, open_sync_pr], None), ())"
      "open_sync_pr \<in> set [other_pr, open_sync_pr]"
      "prefix BRANCH_PREFIX (head_ref open_sync_pr)"
    using pre
    by (simp_all add: guarded_client_def demo_client_def listing_py_def offline_py_def
          open_sync_pr_def)
  have "\<exists>url. fst (check_skip_conditions guarded_client (demo_repo ''app'') client_state)
     = Inr (Some ((new_SyncResult (name (demo_repo ''app'')) SKIPPED)
                    \<lparr>message := msg_existing_pr url\<rparr>))"
    using t listed demo_repo_fields [of "''app''"] by blast
  then show ?thesis
    using named pre created listed(3,4) guarded_skip by simp
qed

subsection \<open>The load stage\<close>

lemma api_call_with_retry_not_found:
  assumes "operation (remote w) = (Inl e, p')" and "is_GithubException e"
    and "\<not> is_RateLimitExceededException e" and "exn_status e = 404"
  shows "api_call_with_retry operation operation_name w = (Inl e, w\<lparr>remote := p'\<rparr>)"
  using assms
  by (simp add: api_call_with_retry_def MAX_RETRIES_def upt_rec remote_call_def)

lemma get_workflow_files_not_found:
  assumes "repo_get_contents py repo path (remote w) = (Inl e, p')" and "is_GithubException e"
    and "\<not> is_RateLimitExceededException e" and "exn_status e = 404"
  shows "GitHubClient_get_workflow_files py repo path w
           = (Inl (SourceRepoError (msg_path_not_found path)), w\<lparr>remote := p'\<rparr>)"
  using api_call_with_retry_not_found
          [where operation = "repo_get_contents py repo path"
             and operation_name = "''get_contents('' @ path @ '')''", OF assms] assms(2,4)
  by (simp add: GitHubClient_get_workflow_files_def get_workflow_files_except_def
        msg_path_not_found_def)

lemma load_source_workflows_cases:
  assumes "load_source_workflows c cfg s = (r, s')"
  shows "(\<exists>u. r = Inr u) \<longrightarrow> source_workflows s' \<noteq> []"
  using assms
  by (auto simp: load_source_workflows_def invoke_def Let_def
           split: prod.splits sum.splits if_splits)

lemma demo_source:
  "source_full_name demo_config = ''acme/templates''"
  "source_full_name release_only = ''acme/templates''"
  by (simp_all add: source_full_name_def demo_config_def release_only_def)

lemma demo_filters:
  "files_filter demo_config = []" "files_filter release_only = [''release.yml'']"
  by (simp_all add: demo_config_def release_only_def)

lemma demo_load:
  "load_source_workflows demo_client demo_config (fresh_state ()) =
     (Inr (),
      \<lparr>world = (),
       trace = [(GetRepository ''acme/templates'', None),
                (GetWorkflowFiles (demo_repo ''templates'') WORKFLOWS_PATH, None)],
       source_workflows = [(''build.yml'', build_yml), (''deploy.yml'', deploy_yml)]\<rparr>)"
  by (simp add: load_source_workflows_def demo_source invoke_def demo_client_def
        fresh_state_def demo_filters)

lemma release_only_load:
  "load_source_workflows demo_client release_only
     ((fresh_state ())\<lparr>world := (), trace := trace (fresh_state ()) @ [(CheckRateLimit False, None)]\<rparr>) =
     (Inl (SourceRepoError msg_no_workflows),
      \<lparr>world = (),
       trace = [(CheckRateLimit False, None), (GetRepository ''acme/templates'', None),
                (GetWorkflowFiles (demo_repo ''templates'') WORKFLOWS_PATH, None)],
       source_workflows = []\<rparr>)"
  by (simp add: load_source_workflows_def demo_source invoke_def demo_client_def
        fresh_state_def demo_filters)

lemma bare_source_load:
  "load_source_workflows bare_source_client demo_config
     ((fresh_state quiet_world)\<lparr>world := quiet_world,
        trace := trace (fresh_state quiet_world) @ [(CheckRateLimit False, None)]\<rparr>) =
     (Inl (SourceRepoError (msg_path_not_found WORKFLOWS_PATH)),
      \<lparr>world = quiet_world,
       trace = [(CheckRateLimit False, None), (GetRepository ''acme/templates'', None),
                (GetWorkflowFiles (demo_repo ''templates'') WORKFLOWS_PATH,
                 Some (SourceRepoError (msg_path_not_found WORKFLOWS_PATH)))],
       source_workflows = []\<rparr>)"
proof -
  have "GitHubClient_get_workflow_files no_workflows_py (demo_repo ''templates'') WORKFLOWS_PATH
      quiet_world
    = (Inl (SourceRepoError (msg_path_not_found WORKFLOWS_PATH)), quiet_world)"
    using get_workflow_files_not_found
      [where py = "no_workflows_py :: unit PyGithub" and repo = "demo_repo ''templates''"
         and path = WORKFLOWS_PATH and w = quiet_world and e = not_found and p' = "()"]
    by (simp add: no_workflows_py_def offline_py_def not_found_def quiet_world_def)
  then show ?thesis
    by (simp add: load_source_workflows_def demo_source invoke_def bare_source_client_def
          demo_client_def fresh_state_def)
qed

text \<open>
  Claim C7. A load stage that returns leaves a non-empty \<^verbatim>\<open>_source_workflows\<close>. When what
  the source holds is empty after the optional filter, the load stage raises
  \<^verbatim>\<open>SourceRepoError\<close>. When the workflow path is missing (PyGithub answers
  \<^verbatim>\<open>get_contents\<close> with a \<^verbatim>\<open>GithubException\<close> of status 404, at once or after retries),
  \<^verbatim>\<open>GitHubClient.get_workflow_files\<close> raises \<^verbatim>\<open>SourceRepoError\<close>, and the load stage passes
  it on. And \<^verbatim>\<open>run\<close> ends with the exception of a failed load stage, in the state the load
  stage left: after the first rate-limit check it has only asked for the source repository
  and its workflow files, under either strategy.
\<close>

theorem load_source_workflows_never_empty:
  "(\<forall>u. load_source_workflows c cfg s = (Inr u, s') \<longrightarrow> source_workflows s' \<noteq> [])
   \<and> (\<forall>source w1 found w2.
         get_repository c (source_full_name cfg) (world s) = (Inr source, w1) \<and>
         get_workflow_files c source WORKFLOWS_PATH w1 = (Inr found, w2) \<and>
         selected cfg found = [] \<longrightarrow>
         fst (load_source_workflows c cfg s) = Inl (SourceRepoError msg_no_workflows))
   \<and> (\<forall>e w'.
         api_call_with_retry (repo_get_contents py repo path) (''get_contents('' @ path @ '')'') w
           = (Inl e, w') \<and> is_GithubException e \<and> exn_status e = 404 \<longrightarrow>
         GitHubClient_get_workflow_files py repo path w
           = (Inl (SourceRepoError (msg_path_not_found path)), w'))
   \<and> (\<forall>e p'.
         repo_get_contents py repo path (remote w) = (Inl e, p') \<and> is_GithubException e \<and>
         \<not> is_RateLimitExceededException e \<and> exn_status e = 404 \<longrightarrow>
         GitHubClient_get_workflow_files py repo path w
           = (Inl (SourceRepoError (msg_path_not_found path)), w\<lparr>remote := p'\<rparr>))
   \<and> (\<forall>source w1 m w2.
         get_repository c (source_full_name cfg) (world s) = (Inr source, w1) \<and>
         get_workflow_files c source WORKFLOWS_PATH w1 = (Inl (SourceRepoError m), w2) \<longrightarrow>
         fst (load_source_workflows c cfg s) = Inl (SourceRepoError m))
   \<and> (\<forall>t s0 w1 e s2.
         now rt s = (t, s0) \<and> check_rate_limit c False (world s0) = (Inr (), w1) \<and>
         load_source_workflows c cfg
           (s0\<lparr>world := w1, trace := trace s0 @ [(CheckRateLimit False, None)]\<rparr>) = (Inl e, s2) \<longrightarrow>
         run c rt cfg parallel_sync parallel' s = (Inl e, s2)
         \<and> (\<exists>evs. trace s2 = trace s @ (CheckRateLimit False, None) # evs
               \<and> set (map fst evs)
                  \<subseteq> {GetRepository (source_full_name cfg)}
                    \<union> {GetWorkflowFiles source WORKFLOWS_PATH | source. True}))"
proof -
  have nonempty: "source_workflows s' \<noteq> []" if "load_source_workflows c cfg s = (Inr u, s')" for u
    using load_source_workflows_cases [OF that] by simp
  have empty: "fst (load_source_workflows c cfg s) = Inl (SourceRepoError msg_no_workflows)"
    if "get_repository c (source_full_name cfg) (world s) = (Inr source, w1)"
      and "get_workflow_files c source WORKFLOWS_PATH w1 = (Inr found, w2)"
      and "selected cfg found = []" for source w1 found w2
    using that by (simp add: load_source_workflows_def invoke_def selected_def)
  have missing: "GitHubClient_get_workflow_files py repo path w
           = (Inl (SourceRepoError (msg_path_not_found path)), w\<lparr>remote := p'\<rparr>)"
    if "repo_get_contents py repo path (remote w) = (Inl e, p')" and "is_GithubException e"
      and "\<not> is_RateLimitExceededException e" and "exn_status e = 404" for e p'
    using get_workflow_files_not_found [OF that] .
  have retried: "GitHubClient_get_workflow_files py repo path w
           = (Inl (SourceRepoError (msg_path_not_found path)), w')"
    if "api_call_with_retry (repo_get_contents py repo path) (''get_contents('' @ path @ '')'') w
           = (Inl e, w')" and "is_GithubException e" and "exn_status e = 404" for e w'
    using that
    by (simp add: GitHubClient_get_workflow_files_def get_workflow_files_except_def
          msg_path_not_found_def)
  have passed_on: "fst (load_source_workflows c cfg s) = Inl (SourceRepoError m)"
    if "get_repository c (source_full_name cfg) (world s) = (Inr source, w1)"
      and "get_workflow_files c source WORKFLOWS_PATH w1 = (Inl (SourceRepoError m), w2)"
    for source w1 m w2
    using that by (simp add: load_source_workflows_def invoke_def)
  have aborts: "run c rt cfg parallel_sync parallel' s = (Inl e, s2)
         \<and> (\<exists>evs. trace s2 = trace s @ (CheckRateLimit False, None) # evs
               \<and> set (map fst evs)
                  \<subseteq> {GetRepository (source_full_name cfg)}
                    \<union> {GetWorkflowFiles source WORKFLOWS_PATH | source. True})"
    if t: "now rt s = (t, s0)" and limit: "check_rate_limit c False (world s0) = (Inr (), w1)"
      and load: "load_source_workflows c cfg
           (s0\<lparr>world := w1, trace := trace s0 @ [(CheckRateLimit False, None)]\<rparr>) = (Inl e, s2)"
    for t s0 w1 e s2
  proof -
    have s0: "trace s0 = trace s"
      using t by (auto simp: now_def split: prod.splits)
    have "run c rt cfg parallel_sync parallel' s = (Inl e, s2)"
      using t limit load by (simp add: run_def invoke_def)
    moreover have "\<exists>evs. trace s2 = trace s @ (CheckRateLimit False, None) # evs
               \<and> set (map fst evs)
                  \<subseteq> {GetRepository (source_full_name cfg)}
                    \<union> {GetWorkflowFiles source WORKFLOWS_PATH | source. True}"
      using load s0
      by (auto simp: load_source_workflows_def invoke_def Let_def
               split: prod.splits sum.splits if_splits)
    ultimately show ?thesis by simp
  qed
  show ?thesis
    using nonempty empty retried missing passed_on aborts by blast
qed

theorem load_source_workflows_never_empty_witness:
  "fst (load_source_workflows demo_client demo_config (fresh_state ())) = Inr ()
   \<and> source_workflows (snd (load_source_workflows demo_client demo_config (fresh_state ())))
     = [(''build.yml'', build_yml), (''deploy.yml'', deploy_yml)]
   \<and> selected release_only [(''build.yml'', build_yml), (''deploy.yml'', deploy_yml)] = []
   \<and> fst (load_source_workflows demo_client release_only (fresh_state ()))
     = Inl (SourceRepoError msg_no_workflows)
   \<and> run demo_client demo_runtime release_only no_parallel False (fresh_state ())
     = (Inl (SourceRepoError msg_no_workflows),
        \<lparr>world = (),
         trace = [(CheckRateLimit False, None), (GetRepository ''acme/templates'', None),
                  (GetWorkflowFiles (demo_repo ''templates'') WORKFLOWS_PATH, None)],
         source_workflows = []\<rparr>)
   \<and> GitHubClient_get_workflow_files no_workflows_py (demo_repo ''templates'') WORKFLOWS_PATH
       quiet_world
     = (Inl (SourceRepoError (msg_path_not_found WORKFLOWS_PATH)), quiet_world)
   \<and> fst (run bare_source_client demo_runtime demo_config no_parallel True
            (fresh_state quiet_world))
     = Inl (SourceRepoError (msg_path_not_found WORKFLOWS_PATH))"
proof -
  note t = load_source_workflows_never_empty
    [where c = "demo_client :: unit IGitHubClient" and cfg = demo_config
       and s = "fresh_state ()"
       and s' = "snd (load_source_workflows demo_client demo_config (fresh_state ()))",
     THEN conjunct1]
  have loaded: "fst (load_source_workflows demo_client demo_config (fresh_state ())) = Inr ()"
    by (simp add: demo_load)
  then have "load_source_workflows demo_client demo_config (fresh_state ())
      = (Inr (), snd (load_source_workflows demo_client demo_config (fresh_state ())))"
    by (metis surjective_pairing)
  then have "source_workflows (snd (load_source_workflows demo_client demo_config
      (fresh_state ()))) \<noteq> []"
    using t by blast
  then have desired: "source_workflows (snd (load_source_workflows demo_client demo_config
      (fresh_state ()))) = [(''build.yml'', build_yml), (''deploy.yml'', deploy_yml)]"
    by (simp add: demo_load)
  note u = load_source_workflows_never_empty
    [where c = "demo_client :: unit IGitHubClient" and cfg = release_only
       and s = "fresh_state ()" and rt = demo_runtime and parallel_sync = no_parallel
       and parallel' = False]
  have none: "selected release_only [(''build.yml'', build_yml), (''deploy.yml'', deploy_yml)]
      = []"
    by (simp add: selected_def demo_filters)
  have source: "get_repository demo_client (source_full_name release_only)
        (world (fresh_state ())) = (Inr (demo_repo ''templates''), ())"
    and found: "get_workflow_files demo_client (demo_repo ''templates'') WORKFLOWS_PATH ()
        = (Inr [(''build.yml'', build_yml), (''deploy.yml'', deploy_yml)], ())"
    by (simp_all add: demo_client_def demo_source)
  have empty: "fst (load_source_workflows demo_client release_only (fresh_state ()))
     = Inl (SourceRepoError msg_no_workflows)"
    using u [THEN conjunct2, THEN conjunct1] source found none by blast
  have clock: "now demo_runtime (fresh_state ()) = (1700000000, fresh_state ())"
    by (simp add: demo_now)
  have limit: "check_rate_limit demo_client False (world (fresh_state ())) = (Inr (), ())"
    by (simp add: demo_client_def)
  have aborted: "run demo_client demo_runtime release_only no_parallel False (fresh_state ())
     = (Inl (SourceRepoError msg_no_workflows),
        \<lparr>world = (),
         trace = [(CheckRateLimit False, None), (GetRepository ''acme/templates'', None),
                  (GetWorkflowFiles (demo_repo ''templates'') WORKFLOWS_PATH, None)],
         source_workflows = []\<rparr>)"
    using u [THEN conjunct2, THEN conjunct2, THEN conjunct2, THEN conjunct2, THEN conjunct2]
      clock limit release_only_load
    by blast
  note v = load_source_workflows_never_empty
    [where c = "bare_source_client :: unit client_world IGitHubClient" and cfg = demo_config
       and s = "fresh_state quiet_world" and rt = demo_runtime and parallel_sync = no_parallel
       and parallel' = True and py = "no_workflows_py :: unit PyGithub"
       and repo = "demo_repo ''templates''" and path = WORKFLOWS_PATH and w = quiet_world]
  have gone: "repo_get_contents no_workflows_py (demo_repo ''templates'') WORKFLOWS_PATH
        (remote quiet_world) = (Inl not_found, ())"
      "is_GithubException not_found" "\<not> is_RateLimitExceededException not_found"
      "exn_status not_found = 404"
    by (simp_all add: no_workflows_py_def offline_py_def not_found_def)
  have "GitHubClient_get_workflow_files no_workflows_py (demo_repo ''templates'') WORKFLOWS_PATH
       quiet_world
     = (Inl (SourceRepoError (msg_path_not_found WORKFLOWS_PATH)), quiet_world\<lparr>remote := ()\<rparr>)"
    using v [THEN conjunct2, THEN conjunct2, THEN conjunct2, THEN conjunct1] gone by blast
  then have missing: "GitHubClient_get_workflow_files no_workflows_py (demo_repo ''templates'')
       WORKFLOWS_PATH quiet_world
     = (Inl (SourceRepoError (msg_path_not_found WORKFLOWS_PATH)), quiet_world)"
    by (simp add: quiet_world_def)
  have clock': "now demo_runtime (fresh_state quiet_world) = (1700000000, fresh_state quiet_world)"
    by (simp add: demo_now)
  have limit': "check_rate_limit bare_source_client False (world (fresh_state quiet_world))
      = (Inr (), quiet_world)"
    by (simp add: bare_source_client_def demo_client_def fresh_state_def)
  have "run bare_source_client demo_runtime demo_config no_parallel True
            (fresh_state quiet_world)
     = (Inl (SourceRepoError (msg_path_not_found WORKFLOWS_PATH)),
        \<lparr>world = quiet_world,
         trace = [(CheckRateLimit False, None), (GetRepository ''acme/templates'', None),
                (GetWorkflowFiles (demo_repo ''templates'') WORKFLOWS_PATH,
                 Some (SourceRepoError (msg_path_not_found WORKFLOWS_PATH)))],
         source_workflows = []\<rparr>)"
    using v [THEN conjunct2, THEN conjunct2, THEN conjunct2, THEN conjunct2, THEN conjunct2]
      clock' limit' bare_source_load
    by blast
  then show ?thesis
    using loaded desired none empty aborted missing by simp
qed

subsection \<open>The source repository is not a target\<close>














lemma append_in_shuffles: "xs @ ys \<in> shuffles xs ys"
  by (induction xs) (simp_all add: Cons_in_shuffles_leftI)

lemma concat_in_interleavings: "concat xss \<in> interleavings xss"
  by (induction xss) (auto intro: append_in_shuffles)

lemma among_refl: "among f f"
  unfolding among_def by blast

lemma answers_of_refl: "answers_of c c"
  unfolding answers_of_def by (simp add: among_refl)





lemma alone_worker: "worker c rt cfg s repo (alone c rt cfg s repo)"
  unfolding worker_def alone_def
  by (rule exI [of _ c], rule exI [of _ rt], rule exI [of _ s],
      rule exI [of _ "snd (sync_single_repo c rt cfg repo s)"])
     (simp add: answers_of_refl split: prod.splits)

lemma last_first_schedule: "schedule c rt cfg (last_first c rt cfg)"
  unfolding schedule_def
proof (intro allI)
  fix n repos and s :: "'a st"
  show "ParallelSyncStrategy_sync c rt cfg n repos s (last_first c rt cfg n repos s)"
  proof (cases "n \<le> 0")
    case True
    then show ?thesis
      by (simp add: last_first_def ParallelSyncStrategy_sync.no_workers)
  next
    case False
    define finished where "finished = map (alone c rt cfg s) repos"
    have "ParallelSyncStrategy_sync c rt cfg n repos s
       (Inr (map fst (rev finished)),
        s\<lparr>world := world s, trace := trace s @ concat (map snd finished)\<rparr>)"
    proof (rule ParallelSyncStrategy_sync.as_completed)
      show "0 < n" using False by simp
      show "list_all2 (worker c rt cfg s) repos finished"
        unfolding finished_def by (simp add: list_all2_conv_all_nth alone_worker)
      show "mset (rev finished) = mset finished" by simp
      show "concat (map snd finished) \<in> interleavings (map snd finished)"
        by (rule concat_in_interleavings)
    qed
    with False show ?thesis
      by (simp add: last_first_def finished_def rev_map comp_def)
  qed
qed

lemma every_end_scheduled:
  assumes "ParallelSyncStrategy_sync c rt cfg n repos s ended"
  shows "\<exists>parallel_sync. schedule c rt cfg parallel_sync \<and> parallel_sync n repos s = ended"
proof -
  define parallel_sync where
    "parallel_sync = (\<lambda>n' repos' s'. if n' = n \<and> repos' = repos \<and> s' = s then ended
                                   else last_first c rt cfg n' repos' s')"
  have "schedule c rt cfg parallel_sync"
    using assms last_first_schedule [of c rt cfg]
    unfolding schedule_def parallel_sync_def by simp
  moreover have "parallel_sync n repos s = ended"
    by (simp add: parallel_sync_def)
  ultimately show ?thesis by blast
qed















subsection \<open>The two strategies\<close>


























end
